theory Spec2Isabelle
  imports Main "HOL-Library.Sublist"
begin

section \<open>Package prosody: configuring a Prosody daemon for integration tests\<close>

text \<open>
  A shallow embedding of \<^verbatim>\<open>internal/integration/prosody/prosody.go\<close>.
  An option of the Go package is a function that mutates a shared \<^verbatim>\<open>*integration.Cmd\<close>
  and returns an error; here it is a function from the builder state to a result that
  carries the state it leaves behind and the error it returns, or a panic.
\<close>

subsection \<open>Constants\<close>

definition cfgFileName :: string where
  "cfgFileName = ''prosody.cfg.lua''"

definition cmdName :: string where
  "cmdName = ''prosody''"

definition configFlag :: string where
  "configFlag = ''--config''"

subsection \<open>Data\<close>

text \<open>
  Modelled from the spec: the struct \<^verbatim>\<open>Config\<close> is declared in a file of package prosody
  that is not among the sources. Its fields are the ones \<^verbatim>\<open>prosody.go\<close> reads and writes
  and the spec's data model lists; a port of \<open>0\<close> is the unset port, an empty list the
  unset list (Go's zero values).
\<close>

record Config =
  C2SPort :: int
  S2SPort :: int
  VHosts :: "string list"
  Modules :: "string list"

definition Config_zero :: Config where
  "Config_zero = \<lparr>C2SPort = 0, S2SPort = 0, VHosts = [], Modules = []\<rparr>"

text \<open>
  Modelled from the spec: package jid is not among the sources. The spec's address
  collaborator parses \<^verbatim>\<open>identity@host\<close> into a local part and a domain part.
\<close>

record JID =
  Localpart :: string
  Domainpart :: string

text \<open>The zero value \<^verbatim>\<open>jid.JID{}\<close>: no identity.\<close>

definition JID_zero :: JID where
  "JID_zero = \<lparr>Localpart = [], Domainpart = []\<rparr>"

text \<open>Modelled from the spec: \<^verbatim>\<open>j.Equal(k)\<close> of package jid compares the parts.\<close>

definition JID_Equal :: "JID \<Rightarrow> JID \<Rightarrow> bool" where
  "JID_Equal j k = (Localpart j = Localpart k \<and> Domainpart j = Domainpart k)"

datatype error = ParseError | BindError | CloseError | CertError | RunError

datatype panic = TypeAssertionPanic | IndexOutOfRangePanic

text \<open>
  Package jid is not among the sources, so the address parser is a parameter of
  \<^verbatim>\<open>CreateUser\<close> and of everything that calls it: any function from an address to a parse
  error or an identity. The statements below that do not name a parser hold for every one.
\<close>

type_synonym parser = "string \<Rightarrow> error + JID"

text \<open>
  Modelled from the spec: one such parser, \<^verbatim>\<open>jid.Parse\<close> as far as the spec describes it. It
  parses \<^verbatim>\<open>identity@host\<close> into the local part before the \<^verbatim>\<open>@\<close> and the domain part after
  it, and fails on input that is not of this shape: no \<^verbatim>\<open>@\<close>, no local part, no domain
  part, a second \<^verbatim>\<open>@\<close>, or a slash. It is used at plain addresses only.
\<close>

definition jid_Parse :: parser where
  "jid_Parse addr =
     (let localpart = takeWhile (\<lambda>c. c \<noteq> CHR ''@'') addr;
          domainpart = tl (dropWhile (\<lambda>c. c \<noteq> CHR ''@'') addr)
      in if CHR ''@'' \<notin> set addr then Inl ParseError
         else if localpart = [] \<or> domainpart = [] then Inl ParseError
         else if CHR ''@'' \<in> set domainpart \<or> CHR ''/'' \<in> set addr then Inl ParseError
         else Inr \<lparr>Localpart = localpart, Domainpart = domainpart\<rparr>)"

text \<open>
  The field \<^verbatim>\<open>Config interface{}\<close> of the builder: \<open>nil\<close>, a value of dynamic type
  \<^verbatim>\<open>Config\<close>, or a value of some other dynamic type (named by a tag).
\<close>

datatype any = NilValue | ConfigValue Config | OtherValue string

text \<open>
  The two closures that \<^verbatim>\<open>prosody.go\<close> hands to \<^verbatim>\<open>integration.TempFile\<close>:
  \<^verbatim>\<open>ConfigFile\<close>'s executes the config template on the \<^verbatim>\<open>Config\<close> it captured (by value)
  and the config directory read when the closure runs; \<^verbatim>\<open>TrustAll\<close>'s writes a fixed string.
\<close>

datatype file_writer = ExecuteCfgTmpl Config | WriteString string

text \<open>The closure that \<^verbatim>\<open>Ctl\<close> hands to \<^verbatim>\<open>integration.Defer\<close>, with the arguments it captured.\<close>

datatype deferred = CtlFunc "string list"

text \<open>
  Modelled from the spec: the builder \<^verbatim>\<open>integration.Cmd\<close> is declared outside the sources.
  It exposes the command-line arguments, the config directory, the slot for the
  configuration blob, the registered deferred file writes, the registered deferred
  functions, and the identity slot with its password. \<open>certs\<close> records the hostnames for
  which a self-signed certificate was requested from the certificate collaborator.
\<close>

record Cmd =
  Args :: "string list"
  cfgDir :: string
  Config :: any
  cfgF :: "(string \<times> file_writer) list"
  deferF :: "deferred list"
  user :: JID
  pass :: string
  certs :: "string list"

datatype result = Panicked panic | Returned "error option" Cmd

type_synonym integration_Option = "Cmd \<Rightarrow> result"

text \<open>What \<^verbatim>\<open>net.Listen\<close> hands back: the port the system assigned and what \<^verbatim>\<open>Close\<close> will return.\<close>

record Listener =
  Port :: int
  Close :: "error option"

subsection \<open>The collaborators in package integration\<close>

text \<open>Modelled from the spec: \<^verbatim>\<open>cmd.ConfigDir()\<close> returns the builder's config directory.\<close>

definition ConfigDir :: "Cmd \<Rightarrow> string" where
  "ConfigDir cmd = cfgDir cmd"

text \<open>Modelled from the spec: \<^verbatim>\<open>cmd.User()\<close> reads the identity slot.\<close>

definition User :: "Cmd \<Rightarrow> JID \<times> string" where
  "User cmd = (user cmd, pass cmd)"

text \<open>
  Modelled from the spec: \<^verbatim>\<open>integration.TempFile(name, f)\<close> registers a deferred write of
  the file \<open>name\<close> in the config directory, to be filled by \<open>f\<close> at render time.
\<close>

definition integration_TempFile :: "string \<Rightarrow> file_writer \<Rightarrow> integration_Option" where
  "integration_TempFile name f cmd = Returned None (cmd\<lparr>cfgF := cfgF cmd @ [(name, f)]\<rparr>)"

text \<open>Modelled from the spec: \<^verbatim>\<open>integration.Args\<close> appends command-line arguments.\<close>

definition integration_Args :: "string list \<Rightarrow> integration_Option" where
  "integration_Args f cmd = Returned None (cmd\<lparr>Args := Args cmd @ f\<rparr>)"

text \<open>
  Modelled from the spec: \<^verbatim>\<open>integration.Defer(f)\<close> registers \<open>f\<close> to be run at execution
  time (Control-invoke is deferred).
\<close>

definition integration_Defer :: "deferred \<Rightarrow> integration_Option" where
  "integration_Defer f cmd = Returned None (cmd\<lparr>deferF := deferF cmd @ [f]\<rparr>)"

text \<open>Modelled from the spec: \<^verbatim>\<open>integration.User\<close> is the setter of the identity slot.\<close>

definition integration_User :: "JID \<Rightarrow> string \<Rightarrow> integration_Option" where
  "integration_User j p cmd = Returned None (cmd\<lparr>user := j, pass := p\<rparr>)"

text \<open>
  Modelled from the spec: \<^verbatim>\<open>integration.Cert(name)\<close> asks the certificate collaborator for a
  self-signed certificate for \<open>name\<close>. The collaborator's answer is the parameter \<open>issue\<close>;
  a granted request is recorded in \<open>certs\<close>.
\<close>

definition integration_Cert :: "(string \<Rightarrow> error option) \<Rightarrow> string \<Rightarrow> integration_Option" where
  "integration_Cert issue name cmd =
     (case issue name of
        Some err \<Rightarrow> Returned (Some err) cmd
      | None \<Rightarrow> Returned None (cmd\<lparr>certs := certs cmd @ [name]\<rparr>))"

text \<open>
  Go's \<^verbatim>\<open>filepath.Clean\<close> on Unix: the path is cut at its slashes; empty elements and \<open>.\<close>
  are dropped; \<open>..\<close> removes the element before it, is dropped at the root, and is kept
  at the start of a relative path; the rest is joined by single slashes, behind a slash
  when the path was rooted; the empty result is \<open>.\<close>.
\<close>

fun split_path :: "string \<Rightarrow> string \<Rightarrow> string list" where
  "split_path elem [] = [elem]"
| "split_path elem (c # cs) =
     (if c = CHR ''/'' then elem # split_path [] cs else split_path (elem @ [c]) cs)"

fun clean_elems :: "bool \<Rightarrow> string list \<Rightarrow> string list \<Rightarrow> string list" where
  "clean_elems rooted out [] = out"
| "clean_elems rooted out (e # es) =
     (if e = [] \<or> e = ''.'' then clean_elems rooted out es
      else if e = ''..'' then
        (if out \<noteq> [] \<and> last out \<noteq> ''..'' then clean_elems rooted (butlast out) es
         else if rooted then clean_elems rooted out es
         else clean_elems rooted (out @ [e]) es)
      else clean_elems rooted (out @ [e]) es)"

fun join_elems :: "string list \<Rightarrow> string" where
  "join_elems [] = []"
| "join_elems [e] = e"
| "join_elems (e # es) = e @ ''/'' @ join_elems es"

definition filepath_Clean :: "string \<Rightarrow> string" where
  "filepath_Clean path =
     (if path = [] then ''.''
      else
        (let rooted = (hd path = CHR ''/'');
             out = join_elems (clean_elems rooted [] (split_path [] path))
         in if rooted then ''/'' @ out else if out = [] then ''.'' else out))"

text \<open>
  Go's \<^verbatim>\<open>filepath.Join(dir, name)\<close>: the elements from the first non-empty one on, joined
  by slashes and cleaned; the empty string when both are empty.
\<close>

definition filepath_Join :: "string \<Rightarrow> string \<Rightarrow> string" where
  "filepath_Join dir name =
     (if dir \<noteq> [] then filepath_Clean (dir @ ''/'' @ name)
      else if name \<noteq> [] then filepath_Clean name
      else [])"

subsection \<open>The options of package prosody\<close>

definition ConfigFile :: "Config \<Rightarrow> integration_Option" where
  "ConfigFile cfg cmd =
     (let cmd1 = cmd\<lparr>Config := ConfigValue cfg\<rparr> in
      case integration_TempFile cfgFileName (ExecuteCfgTmpl cfg) cmd1 of
        Panicked p \<Rightarrow> Panicked p
      | Returned (Some err) cmd2 \<Rightarrow> Returned (Some err) cmd2
      | Returned None cmd2 \<Rightarrow>
          (let cfgFilePath = filepath_Join (ConfigDir cmd2) cfgFileName
           in integration_Args [configFlag, cfgFilePath] cmd2))"

text \<open>
  The context argument of \<^verbatim>\<open>Ctl\<close> and \<^verbatim>\<open>CreateUser\<close> only serves to kill the running
  process and is left out.
\<close>

definition Ctl :: "string list \<Rightarrow> integration_Option" where
  "Ctl args = integration_Defer (CtlFunc args)"

text \<open>
  The body of \<^verbatim>\<open>Ctl\<close>'s closure: the argument vector of the \<^verbatim>\<open>prosodyctl\<close> process it
  builds, and its run. \<open>run\<close> is the outcome of \<^verbatim>\<open>exec.Cmd.Run\<close> on an argument vector,
  which blocks until the process has exited.
\<close>

definition Ctl_argv :: "Cmd \<Rightarrow> string list \<Rightarrow> string list" where
  "Ctl_argv cmd args =
     (let cfgFilePath = filepath_Join (ConfigDir cmd) cfgFileName;
          prosodyCtl_Args = [''prosodyctl'', configFlag, cfgFilePath]
      in prosodyCtl_Args @ args)"

fun run_deferred :: "(string list \<Rightarrow> error option) \<Rightarrow> Cmd \<Rightarrow> deferred \<Rightarrow> error option" where
  "run_deferred run cmd (CtlFunc args) = run (Ctl_argv cmd args)"

definition getConfig :: "Cmd \<Rightarrow> panic + (Config \<times> Cmd)" where
  "getConfig cmd =
     (let cmd1 = (if Config cmd = NilValue then cmd\<lparr>Config := ConfigValue Config_zero\<rparr> else cmd)
      in case Config cmd1 of
           ConfigValue c \<Rightarrow> Inr (c, cmd1)
         | NilValue \<Rightarrow> Inl TypeAssertionPanic
         | OtherValue t \<Rightarrow> Inl TypeAssertionPanic)"

text \<open>
  Modelled from the spec: the builder's listener methods are not among the sources; each
  call opens one listener on a port the operating system assigns. \<open>l\<close> is what
  \<^verbatim>\<open>cmd.C2SListen("tcp", "[::1]:0")\<close> (or \<^verbatim>\<open>cmd.S2SListen\<close>) returned to this call: an error, or
  the listener, whose address on the network \<^verbatim>\<open>tcp\<close> is a \<^verbatim>\<open>*net.TCPAddr\<close>.
\<close>

definition ListenC2S :: "error + Listener \<Rightarrow> integration_Option" where
  "ListenC2S l cmd =
     (case l of
        Inl err \<Rightarrow> Returned (Some err) cmd
      | Inr c2sListener \<Rightarrow>
          (let c2sPort = Port c2sListener in
           case Close c2sListener of
             Some err \<Rightarrow> Returned (Some err) cmd
           | None \<Rightarrow>
               (case getConfig cmd of
                  Inl p \<Rightarrow> Panicked p
                | Inr (cfg, cmd1) \<Rightarrow>
                    Returned None (cmd1\<lparr>Config := ConfigValue (cfg\<lparr>C2SPort := c2sPort\<rparr>)\<rparr>))))"

definition ListenS2S :: "error + Listener \<Rightarrow> integration_Option" where
  "ListenS2S l cmd =
     (case l of
        Inl err \<Rightarrow> Returned (Some err) cmd
      | Inr s2sListener \<Rightarrow>
          (let s2sPort = Port s2sListener in
           case Close s2sListener of
             Some err \<Rightarrow> Returned (Some err) cmd
           | None \<Rightarrow>
               (case getConfig cmd of
                  Inl p \<Rightarrow> Panicked p
                | Inr (cfg, cmd1) \<Rightarrow>
                    Returned None (cmd1\<lparr>Config := ConfigValue (cfg\<lparr>S2SPort := s2sPort\<rparr>)\<rparr>))))"

definition VHost :: "string list \<Rightarrow> integration_Option" where
  "VHost hosts cmd =
     (case getConfig cmd of
        Inl p \<Rightarrow> Panicked p
      | Inr (cfg, cmd1) \<Rightarrow>
          Returned None (cmd1\<lparr>Config := ConfigValue (cfg\<lparr>VHosts := VHosts cfg @ hosts\<rparr>)\<rparr>))"

definition CreateUser :: "parser \<Rightarrow> string \<Rightarrow> string \<Rightarrow> integration_Option" where
  "CreateUser parse addr pw cmd =
     (case parse addr of
        Inl err \<Rightarrow> Returned (Some err) cmd
      | Inr j \<Rightarrow>
          (case Ctl [''register'', Localpart j, Domainpart j, pw] cmd of
             Panicked p \<Rightarrow> Panicked p
           | Returned (Some err) cmd1 \<Rightarrow> Returned (Some err) cmd1
           | Returned None cmd1 \<Rightarrow> integration_User j pw cmd1))"

text \<open>The loop of \<^verbatim>\<open>Modules\<close>: one append per element of the argument list.\<close>

fun Modules_loop :: "Config \<Rightarrow> string list \<Rightarrow> Config" where
  "Modules_loop cfg [] = cfg"
| "Modules_loop cfg (m # rest) = Modules_loop (cfg\<lparr>Modules := Modules cfg @ [m]\<rparr>) rest"

definition Modules_opt :: "string list \<Rightarrow> integration_Option" where
  "Modules_opt mods cmd =
     (case getConfig cmd of
        Inl p \<Rightarrow> Panicked p
      | Inr (cfg, cmd1) \<Rightarrow> Returned None (cmd1\<lparr>Config := ConfigValue (Modules_loop cfg mods)\<rparr>))"

definition modName :: string where
  "modName = ''trustall''"

text \<open>The string literal that \<^verbatim>\<open>TrustAll\<close>'s closure writes, line by line.\<close>

definition trustall_script :: string where
  "trustall_script = concat
     [[CHR 0x0A],
      ''module:set_global();'', [CHR 0x0A],
      [CHR 0x0A],
      ''module:hook(\"s2s-check-certificate\", function(event)'', [CHR 0x0A],
      [CHR 0x09], ''local session = event.session;'', [CHR 0x0A],
      [CHR 0x09], ''module:log(\"info\", \"implicitly trusting presented certificate\");'', [CHR 0x0A],
      [CHR 0x09], ''session.cert_chain_status = \"valid\";'', [CHR 0x0A],
      [CHR 0x09], ''session.cert_identity_status = \"valid\";'', [CHR 0x0A],
      [CHR 0x09], ''return true;'', [CHR 0x0A],
      ''end);'']"

definition TrustAll :: integration_Option where
  "TrustAll cmd =
     (case Modules_opt [modName] cmd of
        Panicked p \<Rightarrow> Panicked p
      | Returned (Some err) cmd1 \<Rightarrow> Returned (Some err) cmd1
      | Returned None cmd1 \<Rightarrow>
          integration_TempFile (''mod_'' @ modName @ ''.lua'') (WriteString trustall_script) cmd1)"

text \<open>The loop at the head of \<^verbatim>\<open>defaultConfig\<close>: is some argument the config flag?\<close>

fun args_have_configFlag :: "string list \<Rightarrow> bool" where
  "args_have_configFlag [] = False"
| "args_have_configFlag (arg # rest) = (if arg = configFlag then True else args_have_configFlag rest)"

definition vhost :: string where
  "vhost = ''localhost''"

text \<open>
  The vhost step of \<^verbatim>\<open>defaultConfig\<close>, on the local copy \<open>cfg\<close>: the copy it leaves, or the
  result with which \<^verbatim>\<open>defaultConfig\<close> returns early.
\<close>

definition defaultConfig_vhosts ::
    "(string \<Rightarrow> error option) \<Rightarrow> Config \<Rightarrow> Cmd \<Rightarrow> result + (Config \<times> Cmd)" where
  "defaultConfig_vhosts issue cfg cmd =
     (if length (VHosts cfg) = 0
      then (let cfg1 = cfg\<lparr>VHosts := VHosts cfg @ [vhost]\<rparr> in
            case integration_Cert issue vhost cmd of
              Panicked p \<Rightarrow> Inl (Panicked p)
            | Returned (Some err) cmd1 \<Rightarrow> Inl (Returned (Some err) cmd1)
            | Returned None cmd1 \<Rightarrow> Inr (cfg1, cmd1))
      else Inr (cfg, cmd))"

text \<open>
  The user step: \<^verbatim>\<open>cfg.VHosts[0]\<close> panics on an empty list, so that branch is written out.
\<close>

definition defaultConfig_user :: "parser \<Rightarrow> Config \<Rightarrow> integration_Option" where
  "defaultConfig_user parse cfg cmd =
     (if JID_Equal (fst (User cmd)) JID_zero
      then (case VHosts cfg of
              [] \<Rightarrow> Panicked IndexOutOfRangePanic
            | v0 # rest \<Rightarrow> CreateUser parse (''me@'' @ v0) ''password'' cmd)
      else Returned None cmd)"

definition defaultConfig :: "parser \<Rightarrow> (string \<Rightarrow> error option) \<Rightarrow> integration_Option" where
  "defaultConfig parse issue cmd =
     (if args_have_configFlag (Args cmd) then Returned None cmd
      else
        (case getConfig cmd of
           Inl p \<Rightarrow> Panicked p
         | Inr (cfg, cmd1) \<Rightarrow>
             (case defaultConfig_vhosts issue cfg cmd1 of
                Inl r \<Rightarrow> r
              | Inr (cfg1, cmd2) \<Rightarrow>
                  (let cmd3 = cmd2\<lparr>Config := ConfigValue cfg1\<rparr> in
                   case defaultConfig_user parse cfg1 cmd3 of
                     Panicked p \<Rightarrow> Panicked p
                   | Returned (Some err) cmd4 \<Rightarrow> Returned (Some err) cmd4
                   | Returned None cmd4 \<Rightarrow> ConfigFile cfg1 cmd4))))"

subsection \<open>Rendering the registered files\<close>

text \<open>
  The value \<^verbatim>\<open>ConfigFile\<close>'s closure hands to the template: the anonymous struct that
  embeds the captured \<^verbatim>\<open>Config\<close> and adds \<^verbatim>\<open>ConfigDir\<close>.
\<close>

record tmpl_data =
  data_Config :: Config
  data_ConfigDir :: string

text \<open>
  Running a registered writer on the builder \<open>cmd\<close>. The template \<^verbatim>\<open>cfgTmpl\<close> is declared
  in a file of the package that is not among the sources, so it is a parameter: any
  function from the template data to the text it renders, or to an error.
\<close>

fun write_file :: "(tmpl_data \<Rightarrow> error + string) \<Rightarrow> Cmd \<Rightarrow> file_writer \<Rightarrow> error + string" where
  "write_file cfgTmpl cmd (ExecuteCfgTmpl cfg) = cfgTmpl \<lparr>data_Config = cfg, data_ConfigDir = ConfigDir cmd\<rparr>"
| "write_file cfgTmpl cmd (WriteString s) = Inr s"

text \<open>
  Modelled from the spec: at render time the lifecycle manager of package integration
  writes every registered file into the config directory, in registration order.
\<close>

definition render_files :: "(tmpl_data \<Rightarrow> error + string) \<Rightarrow> Cmd \<Rightarrow> (string \<times> (error + string)) list" where
  "render_files cfgTmpl cmd =
     map (\<lambda>(name, f). (filepath_Join (cfgDir cmd) name, write_file cfgTmpl cmd f)) (cfgF cmd)"

subsection \<open>Sequences of options\<close>

text \<open>A call of one of the package's options, with its arguments.\<close>

datatype option_call =
    ConfigFile_call Config
  | Ctl_call "string list"
  | ListenC2S_call "error + Listener"
  | ListenS2S_call "error + Listener"
  | VHost_call "string list"
  | CreateUser_call string string
  | Modules_call "string list"
  | TrustAll_call
  | defaultConfig_call

fun apply_call :: "parser \<Rightarrow> (string \<Rightarrow> error option) \<Rightarrow> option_call \<Rightarrow> integration_Option" where
  "apply_call parse issue (ConfigFile_call cfg) = ConfigFile cfg"
| "apply_call parse issue (Ctl_call args) = Ctl args"
| "apply_call parse issue (ListenC2S_call l) = ListenC2S l"
| "apply_call parse issue (ListenS2S_call l) = ListenS2S l"
| "apply_call parse issue (VHost_call hosts) = VHost hosts"
| "apply_call parse issue (CreateUser_call addr pw) = CreateUser parse addr pw"
| "apply_call parse issue (Modules_call mods) = Modules_opt mods"
| "apply_call parse issue TrustAll_call = TrustAll"
| "apply_call parse issue defaultConfig_call = defaultConfig parse issue"

text \<open>
  Modelled from the spec: the options are applied in order to the one shared builder,
  and the first failure aborts the sequence (the loop of \<^verbatim>\<open>integration.New\<close>).
\<close>

fun apply_calls :: "parser \<Rightarrow> (string \<Rightarrow> error option) \<Rightarrow> option_call list \<Rightarrow> integration_Option" where
  "apply_calls parse issue [] cmd = Returned None cmd"
| "apply_calls parse issue (c # cs) cmd =
     (case apply_call parse issue c cmd of
        Panicked p \<Rightarrow> Panicked p
      | Returned (Some err) cmd1 \<Rightarrow> Returned (Some err) cmd1
      | Returned None cmd1 \<Rightarrow> apply_calls parse issue cs cmd1)"

text \<open>
  Modelled from the spec: at execution time the lifecycle manager runs the deferred
  functions in the order of their registration, on the builder as it then is, and the
  first failure is the result. \<open>run\<close> is the outcome of running a process.
\<close>

fun run_all :: "(string list \<Rightarrow> error option) \<Rightarrow> Cmd \<Rightarrow> deferred list \<Rightarrow> error option" where
  "run_all run cmd [] = None"
| "run_all run cmd (f # fs) =
     (case run_deferred run cmd f of Some err \<Rightarrow> Some err | None \<Rightarrow> run_all run cmd fs)"

definition run_deferF :: "(string list \<Rightarrow> error option) \<Rightarrow> Cmd \<Rightarrow> error option" where
  "run_deferF run cmd = run_all run cmd (deferF cmd)"

text \<open>
  Modelled from the spec: the builder as \<^verbatim>\<open>integration.New\<close> creates it, before any option:
  the argument vector holds the command name, the configuration slot is \<open>nil\<close>, nothing is
  registered and no identity is recorded.
\<close>

definition new_Cmd :: "string \<Rightarrow> Cmd" where
  "new_Cmd dir = \<lparr>Args = [cmdName], cfgDir = dir, Config = NilValue, cfgF = [], deferF = [],
     user = JID_zero, pass = [], certs = []\<rparr>"

text \<open>A certificate collaborator that grants every request.\<close>

definition issue_ok :: "string \<Rightarrow> error option" where
  "issue_ok name = None"

text \<open>An admin tool that succeeds on one argument vector and fails on every other.\<close>

definition run_only :: "string list \<Rightarrow> string list \<Rightarrow> error option" where
  "run_only expected argv = (if argv = expected then None else Some RunError)"

text \<open>An admin tool whose every run fails.\<close>

definition run_fails :: "string list \<Rightarrow> error option" where
  "run_fails argv = Some RunError"

subsection \<open>Notions used in the statements\<close>

text \<open>The slot holds \<open>nil\<close> or a \<^verbatim>\<open>Config\<close>: the type assertion of \<^verbatim>\<open>getConfig\<close> will succeed.\<close>

definition slot_ok :: "Cmd \<Rightarrow> bool" where
  "slot_ok cmd = (case Config cmd of OtherValue t \<Rightarrow> False | NilValue \<Rightarrow> True | ConfigValue c \<Rightarrow> True)"

text \<open>The Configuration Value the builder holds, a \<open>nil\<close> slot read as the empty one.\<close>

definition current_config :: "Cmd \<Rightarrow> Config" where
  "current_config cmd = (case Config cmd of ConfigValue c \<Rightarrow> c | NilValue \<Rightarrow> Config_zero | OtherValue t \<Rightarrow> Config_zero)"

text \<open>
  \<open>grows cmd cmd'\<close>: the config directory is the same, and the argument vector and the
  registered file writes of \<open>cmd'\<close> extend those of \<open>cmd\<close>.
\<close>

definition grows :: "Cmd \<Rightarrow> Cmd \<Rightarrow> bool" where
  "grows cmd cmd' = (cfgDir cmd' = cfgDir cmd \<and> prefix (Args cmd) (Args cmd') \<and> prefix (cfgF cmd) (cfgF cmd'))"

text \<open>The arguments of the \<^verbatim>\<open>VHost\<close> calls of a sequence, concatenated in call order.\<close>

fun vhost_args :: "option_call list \<Rightarrow> string list" where
  "vhost_args [] = []"
| "vhost_args (VHost_call hosts # cs) = hosts @ vhost_args cs"
| "vhost_args (c # cs) = vhost_args cs"

text \<open>The arguments of the \<^verbatim>\<open>Modules\<close> calls of a sequence, concatenated in call order.\<close>

fun module_args :: "option_call list \<Rightarrow> string list" where
  "module_args [] = []"
| "module_args (Modules_call mods # cs) = mods @ module_args cs"
| "module_args (c # cs) = module_args cs"

fun is_ConfigFile :: "option_call \<Rightarrow> bool" where
  "is_ConfigFile (ConfigFile_call cfg) = True"
| "is_ConfigFile c = False"

fun is_VHost_or_Modules :: "option_call \<Rightarrow> bool" where
  "is_VHost_or_Modules (VHost_call hosts) = True"
| "is_VHost_or_Modules (Modules_call mods) = True"
| "is_VHost_or_Modules c = False"

section \<open>Basic facts about the options\<close>

lemma JID_Equal_iff: "JID_Equal j k = (j = k)"
  by (cases j, cases k) (simp add: JID_Equal_def)

lemma args_have_configFlag_iff: "args_have_configFlag args = (configFlag \<in> set args)"
  by (induction args) auto

lemma Modules_loop_append: "Modules_loop cfg ms = cfg\<lparr>Modules := Modules cfg @ ms\<rparr>"
  by (induction ms arbitrary: cfg) simp_all

lemma getConfig_ok:
  "slot_ok cmd \<Longrightarrow> getConfig cmd = Inr (current_config cmd, cmd\<lparr>Config := ConfigValue (current_config cmd)\<rparr>)"
  by (cases "Config cmd") (simp_all add: slot_ok_def getConfig_def current_config_def)

lemma getConfig_bad:
  "\<not> slot_ok cmd \<Longrightarrow> getConfig cmd = Inl TypeAssertionPanic"
  by (cases "Config cmd") (simp_all add: slot_ok_def getConfig_def)

lemma VHost_ok:
  "slot_ok cmd \<Longrightarrow> VHost hosts cmd =
     Returned None (cmd\<lparr>Config := ConfigValue ((current_config cmd)\<lparr>VHosts := VHosts (current_config cmd) @ hosts\<rparr>)\<rparr>)"
  by (simp add: VHost_def getConfig_ok)

lemma Modules_opt_ok:
  "slot_ok cmd \<Longrightarrow> Modules_opt mods cmd =
     Returned None (cmd\<lparr>Config := ConfigValue ((current_config cmd)\<lparr>Modules := Modules (current_config cmd) @ mods\<rparr>)\<rparr>)"
  by (simp add: Modules_opt_def getConfig_ok Modules_loop_append)

lemma jid_Parse_me_localhost:
  "jid_Parse ''me@localhost'' = Inr \<lparr>Localpart = ''me'', Domainpart = ''localhost''\<rparr>"
  by (simp add: jid_Parse_def)

lemma CreateUser_err:
  "parse addr = Inl err \<Longrightarrow> CreateUser parse addr pw cmd = Returned (Some err) cmd"
  by (simp add: CreateUser_def)

lemma CreateUser_ok:
  "parse addr = Inr j \<Longrightarrow> CreateUser parse addr pw cmd =
     Returned None (cmd\<lparr>deferF := deferF cmd @ [CtlFunc [''register'', Localpart j, Domainpart j, pw]],
       user := j, pass := pw\<rparr>)"
  by (simp add: CreateUser_def Ctl_def integration_Defer_def integration_User_def)

lemma filepath_Join_tmp:
  "filepath_Join ''/tmp/prosody'' ''prosody.cfg.lua'' = ''/tmp/prosody/prosody.cfg.lua''"
  "filepath_Join ''/tmp/prosody'' ''mod_trustall.lua'' = ''/tmp/prosody/mod_trustall.lua''"
  by (simp_all add: filepath_Join_def filepath_Clean_def)

lemma ConfigFile_eq:
  "ConfigFile cfg cmd = Returned None (cmd\<lparr>Args := Args cmd @ [configFlag, filepath_Join (cfgDir cmd) cfgFileName],
      Config := ConfigValue cfg, cfgF := cfgF cmd @ [(cfgFileName, ExecuteCfgTmpl cfg)]\<rparr>)"
  by (simp add: ConfigFile_def integration_TempFile_def integration_Args_def ConfigDir_def)

lemma grows_refl: "grows cmd cmd"
  by (simp add: grows_def)

lemma grows_trans: "grows a b \<Longrightarrow> grows b c \<Longrightarrow> grows a c"
  by (auto simp: grows_def)

lemma getConfig_grows: "getConfig cmd = Inr (cfg, cmd1) \<Longrightarrow> grows cmd cmd1"
  by (auto simp: getConfig_def grows_def Let_def split: if_splits any.splits)

lemma ConfigFile_grows: "ConfigFile cfg cmd = Returned e cmd' \<Longrightarrow> grows cmd cmd'"
  by (auto simp: ConfigFile_eq grows_def)

lemma Ctl_grows: "Ctl args cmd = Returned e cmd' \<Longrightarrow> grows cmd cmd'"
  by (auto simp: Ctl_def integration_Defer_def grows_def)

lemma ListenC2S_grows: "ListenC2S l cmd = Returned e cmd' \<Longrightarrow> grows cmd cmd'"
  by (auto simp: ListenC2S_def Let_def grows_def dest!: getConfig_grows split: sum.splits option.splits)

lemma ListenS2S_grows: "ListenS2S l cmd = Returned e cmd' \<Longrightarrow> grows cmd cmd'"
  by (auto simp: ListenS2S_def Let_def grows_def dest!: getConfig_grows split: sum.splits option.splits)

lemma VHost_grows: "VHost hosts cmd = Returned e cmd' \<Longrightarrow> grows cmd cmd'"
  by (auto simp: VHost_def grows_def dest!: getConfig_grows split: sum.splits)

lemma Modules_opt_grows: "Modules_opt mods cmd = Returned e cmd' \<Longrightarrow> grows cmd cmd'"
  by (auto simp: Modules_opt_def grows_def dest!: getConfig_grows split: sum.splits)

lemma CreateUser_grows: "CreateUser parse addr pw cmd = Returned e cmd' \<Longrightarrow> grows cmd cmd'"
  by (auto simp: CreateUser_def Ctl_def integration_Defer_def integration_User_def grows_def split: sum.splits)

lemma TrustAll_grows: "TrustAll cmd = Returned e cmd' \<Longrightarrow> grows cmd cmd'"
  by (auto simp: TrustAll_def integration_TempFile_def grows_def
      dest!: Modules_opt_grows split: result.splits option.splits)

lemma defaultConfig_vhosts_grows:
  "defaultConfig_vhosts issue cfg cmd = Inr (cfg1, cmd1) \<Longrightarrow> grows cmd cmd1"
  "defaultConfig_vhosts issue cfg cmd = Inl (Returned e cmd1) \<Longrightarrow> grows cmd cmd1"
  by (auto simp: defaultConfig_vhosts_def integration_Cert_def grows_def Let_def split: if_splits option.splits)

lemma defaultConfig_user_grows: "defaultConfig_user parse cfg cmd = Returned e cmd' \<Longrightarrow> grows cmd cmd'"
  by (auto simp: defaultConfig_user_def grows_refl dest: CreateUser_grows split: if_splits list.splits)

lemma defaultConfig_grows:
  assumes "defaultConfig parse issue cmd = Returned e cmd'"
  shows "grows cmd cmd'"
proof (cases "args_have_configFlag (Args cmd)")
  case True
  with assms show ?thesis by (simp add: defaultConfig_def grows_refl)
next
  case False
  show ?thesis
  proof (cases "getConfig cmd")
    case (Inl p)
    with assms False show ?thesis by (simp add: defaultConfig_def)
  next
    case (Inr a)
    then obtain cfg cmd1 where g: "getConfig cmd = Inr (cfg, cmd1)" by (cases a) simp
    have g1: "grows cmd cmd1" using g by (rule getConfig_grows)
    show ?thesis
    proof (cases "defaultConfig_vhosts issue cfg cmd1")
      case (Inl r)
      with assms False g have "r = Returned e cmd'" by (simp add: defaultConfig_def)
      with Inl have "grows cmd1 cmd'" by (simp add: defaultConfig_vhosts_grows(2))
      with g1 show ?thesis by (rule grows_trans)
    next
      case (Inr b)
      then obtain cfg1 cmd2 where v: "defaultConfig_vhosts issue cfg cmd1 = Inr (cfg1, cmd2)"
        by (cases b) simp
      have g2: "grows cmd1 cmd2" using v by (rule defaultConfig_vhosts_grows(1))
      let ?cmd3 = "cmd2\<lparr>Config := ConfigValue cfg1\<rparr>"
      have g3: "grows cmd ?cmd3"
        using grows_trans[OF g1 g2] by (simp add: grows_def)
      have "grows ?cmd3 cmd'"
      proof (cases "defaultConfig_user parse cfg1 ?cmd3")
        case (Panicked p)
        with assms False g v show ?thesis by (simp add: defaultConfig_def)
      next
        case (Returned e4 cmd4)
        then have g4: "grows ?cmd3 cmd4" by (rule defaultConfig_user_grows)
        show ?thesis
        proof (cases e4)
          case None
          with assms False g v Returned have "ConfigFile cfg1 cmd4 = Returned e cmd'"
            by (simp add: defaultConfig_def)
          then have "grows cmd4 cmd'" by (rule ConfigFile_grows)
          with g4 show ?thesis by (rule grows_trans)
        next
          case (Some err)
          with assms False g v Returned have "cmd' = cmd4" by (simp add: defaultConfig_def)
          with g4 show ?thesis by simp
        qed
      qed
      with g3 show ?thesis by (rule grows_trans)
    qed
  qed
qed

lemma apply_call_grows: "apply_call parse issue c cmd = Returned e cmd' \<Longrightarrow> grows cmd cmd'"
  by (cases c)
    (simp_all add: ConfigFile_grows Ctl_grows ListenC2S_grows ListenS2S_grows VHost_grows
      CreateUser_grows Modules_opt_grows TrustAll_grows defaultConfig_grows)

lemma apply_calls_grows: "apply_calls parse issue cs cmd = Returned e cmd' \<Longrightarrow> grows cmd cmd'"
proof (induction cs arbitrary: cmd)
  case Nil
  then show ?case by (simp add: grows_refl)
next
  case (Cons c cs)
  show ?case
  proof (cases "apply_call parse issue c cmd")
    case (Panicked p)
    with Cons.prems show ?thesis by simp
  next
    case (Returned e1 cmd1)
    then have g: "grows cmd cmd1" by (rule apply_call_grows)
    show ?thesis
    proof (cases e1)
      case None
      with Cons.prems Returned have "apply_calls parse issue cs cmd1 = Returned e cmd'" by simp
      then have "grows cmd1 cmd'" by (rule Cons.IH)
      with g show ?thesis by (rule grows_trans)
    next
      case (Some err)
      with Cons.prems Returned g show ?thesis by simp
    qed
  qed
qed

lemma slot_ok_ConfigValue [simp]: "slot_ok (cmd\<lparr>Config := ConfigValue c\<rparr>)"
  by (simp add: slot_ok_def)

lemma current_config_ConfigValue [simp]: "current_config (cmd\<lparr>Config := ConfigValue c\<rparr>) = c"
  by (simp add: current_config_def)

lemma defaultConfig_flag:
  "args_have_configFlag (Args cmd) \<Longrightarrow> defaultConfig parse issue cmd = Returned None cmd"
  by (simp add: defaultConfig_def)

lemma defaultConfig_bad_slot:
  "\<not> args_have_configFlag (Args cmd) \<Longrightarrow> \<not> slot_ok cmd \<Longrightarrow>
   defaultConfig parse issue cmd = Panicked TypeAssertionPanic"
  by (simp add: defaultConfig_def getConfig_bad)

lemma defaultConfig_cert_fails:
  "\<not> args_have_configFlag (Args cmd) \<Longrightarrow> slot_ok cmd \<Longrightarrow> VHosts (current_config cmd) = [] \<Longrightarrow>
   issue vhost = Some err \<Longrightarrow>
   defaultConfig parse issue cmd = Returned (Some err) (cmd\<lparr>Config := ConfigValue (current_config cmd)\<rparr>)"
  by (simp add: defaultConfig_def getConfig_ok defaultConfig_vhosts_def integration_Cert_def)

lemma defaultConfig_user_set:
  "user cmd \<noteq> JID_zero \<Longrightarrow> defaultConfig_user parse cfg cmd = Returned None cmd"
  by (simp add: defaultConfig_user_def User_def JID_Equal_iff)

lemma defaultConfig_user_ok:
  "user cmd = JID_zero \<Longrightarrow> VHosts cfg = host # rest \<Longrightarrow> parse (''me@'' @ host) = Inr j \<Longrightarrow>
   defaultConfig_user parse cfg cmd =
     Returned None (cmd\<lparr>deferF := deferF cmd @ [CtlFunc [''register'', Localpart j, Domainpart j, ''password'']],
       user := j, pass := ''password''\<rparr>)"
  by (simp add: defaultConfig_user_def User_def JID_Equal_iff CreateUser_def Ctl_def
      integration_Defer_def integration_User_def)

lemma defaultConfig_user_err:
  "user cmd = JID_zero \<Longrightarrow> VHosts cfg = host # rest \<Longrightarrow> parse (''me@'' @ host) = Inl err \<Longrightarrow>
   defaultConfig_user parse cfg cmd = Returned (Some err) cmd"
  by (simp add: defaultConfig_user_def User_def JID_Equal_iff CreateUser_def)

lemma defaultConfig_empty:
  assumes "\<not> args_have_configFlag (Args cmd)" "slot_ok cmd" "VHosts (current_config cmd) = []"
    "issue vhost = None"
  shows "defaultConfig parse issue cmd =
     (case defaultConfig_user parse ((current_config cmd)\<lparr>VHosts := [vhost]\<rparr>)
             (cmd\<lparr>certs := certs cmd @ [vhost],
                  Config := ConfigValue ((current_config cmd)\<lparr>VHosts := [vhost]\<rparr>)\<rparr>) of
        Panicked p \<Rightarrow> Panicked p
      | Returned (Some err) cmd4 \<Rightarrow> Returned (Some err) cmd4
      | Returned None cmd4 \<Rightarrow> ConfigFile ((current_config cmd)\<lparr>VHosts := [vhost]\<rparr>) cmd4)"
  using assms
  by (simp add: defaultConfig_def getConfig_ok defaultConfig_vhosts_def integration_Cert_def)

lemma defaultConfig_hosts:
  assumes "\<not> args_have_configFlag (Args cmd)" "slot_ok cmd" "VHosts (current_config cmd) = v0 # rest"
  shows "defaultConfig parse issue cmd =
     (case defaultConfig_user parse (current_config cmd)
             (cmd\<lparr>Config := ConfigValue (current_config cmd)\<rparr>) of
        Panicked p \<Rightarrow> Panicked p
      | Returned (Some err) cmd4 \<Rightarrow> Returned (Some err) cmd4
      | Returned None cmd4 \<Rightarrow> ConfigFile (current_config cmd) cmd4)"
  using assms
  by (simp add: defaultConfig_def getConfig_ok defaultConfig_vhosts_def)

lemma defaultConfig_empty_zero:
  assumes "\<not> args_have_configFlag (Args cmd)" "slot_ok cmd" "VHosts (current_config cmd) = []"
    "issue vhost = None" "user cmd = JID_zero" "parse (''me@'' @ vhost) = Inr j"
  shows "defaultConfig parse issue cmd =
     Returned None (cmd\<lparr>Args := Args cmd @ [configFlag, filepath_Join (cfgDir cmd) cfgFileName],
       Config := ConfigValue ((current_config cmd)\<lparr>VHosts := [vhost]\<rparr>),
       cfgF := cfgF cmd @ [(cfgFileName, ExecuteCfgTmpl ((current_config cmd)\<lparr>VHosts := [vhost]\<rparr>))],
       deferF := deferF cmd @ [CtlFunc [''register'', Localpart j, Domainpart j, ''password'']],
       user := j, pass := ''password'',
       certs := certs cmd @ [vhost]\<rparr>)"
proof -
  let ?cfg1 = "(current_config cmd)\<lparr>VHosts := [vhost]\<rparr>"
  let ?cmd3 = "cmd\<lparr>certs := certs cmd @ [vhost], Config := ConfigValue ?cfg1\<rparr>"
  have "defaultConfig_user parse ?cfg1 ?cmd3 =
      Returned None (?cmd3\<lparr>deferF := deferF ?cmd3 @
          [CtlFunc [''register'', Localpart j, Domainpart j, ''password'']],
        user := j, pass := ''password''\<rparr>)"
    using assms(5,6) by (intro defaultConfig_user_ok [where host = vhost and rest = "[]"]) simp_all
  then show ?thesis
    unfolding defaultConfig_empty [where parse = parse and issue = issue, OF assms(1-4)]
    by (simp add: ConfigFile_eq)
qed

lemma defaultConfig_empty_zero_err:
  assumes "\<not> args_have_configFlag (Args cmd)" "slot_ok cmd" "VHosts (current_config cmd) = []"
    "issue vhost = None" "user cmd = JID_zero" "parse (''me@'' @ vhost) = Inl err"
  shows "defaultConfig parse issue cmd =
     Returned (Some err) (cmd\<lparr>Config := ConfigValue ((current_config cmd)\<lparr>VHosts := [vhost]\<rparr>),
       certs := certs cmd @ [vhost]\<rparr>)"
proof -
  let ?cfg1 = "(current_config cmd)\<lparr>VHosts := [vhost]\<rparr>"
  let ?cmd3 = "cmd\<lparr>certs := certs cmd @ [vhost], Config := ConfigValue ?cfg1\<rparr>"
  have "defaultConfig_user parse ?cfg1 ?cmd3 = Returned (Some err) ?cmd3"
    using assms(5,6) by (intro defaultConfig_user_err [where host = vhost and rest = "[]"]) simp_all
  then show ?thesis
    unfolding defaultConfig_empty [where parse = parse and issue = issue, OF assms(1-4)]
    by simp
qed

lemma defaultConfig_empty_set:
  assumes "\<not> args_have_configFlag (Args cmd)" "slot_ok cmd" "VHosts (current_config cmd) = []"
    "issue vhost = None" "user cmd \<noteq> JID_zero"
  shows "defaultConfig parse issue cmd =
     Returned None (cmd\<lparr>Args := Args cmd @ [configFlag, filepath_Join (cfgDir cmd) cfgFileName],
       Config := ConfigValue ((current_config cmd)\<lparr>VHosts := [vhost]\<rparr>),
       cfgF := cfgF cmd @ [(cfgFileName, ExecuteCfgTmpl ((current_config cmd)\<lparr>VHosts := [vhost]\<rparr>))],
       certs := certs cmd @ [vhost]\<rparr>)"
  unfolding defaultConfig_empty [where parse = parse and issue = issue, OF assms(1-4)]
  using assms(5)
  by (simp add: defaultConfig_user_set ConfigFile_eq)

lemma defaultConfig_hosts_zero:
  assumes "\<not> args_have_configFlag (Args cmd)" "slot_ok cmd" "VHosts (current_config cmd) = v0 # rest"
    "user cmd = JID_zero" "parse (''me@'' @ v0) = Inr j"
  shows "defaultConfig parse issue cmd =
     Returned None (cmd\<lparr>Args := Args cmd @ [configFlag, filepath_Join (cfgDir cmd) cfgFileName],
       Config := ConfigValue (current_config cmd),
       cfgF := cfgF cmd @ [(cfgFileName, ExecuteCfgTmpl (current_config cmd))],
       deferF := deferF cmd @ [CtlFunc [''register'', Localpart j, Domainpart j, ''password'']],
       user := j, pass := ''password''\<rparr>)"
proof -
  let ?cmd3 = "cmd\<lparr>Config := ConfigValue (current_config cmd)\<rparr>"
  have "defaultConfig_user parse (current_config cmd) ?cmd3 =
      Returned None (?cmd3\<lparr>deferF := deferF ?cmd3 @
          [CtlFunc [''register'', Localpart j, Domainpart j, ''password'']],
        user := j, pass := ''password''\<rparr>)"
    using assms(3,4,5) by (intro defaultConfig_user_ok [where host = v0 and rest = rest]) simp_all
  then show ?thesis
    unfolding defaultConfig_hosts [where parse = parse and issue = issue, OF assms(1-3)]
    by (simp add: ConfigFile_eq)
qed

lemma defaultConfig_hosts_zero_err:
  assumes "\<not> args_have_configFlag (Args cmd)" "slot_ok cmd" "VHosts (current_config cmd) = v0 # rest"
    "user cmd = JID_zero" "parse (''me@'' @ v0) = Inl err"
  shows "defaultConfig parse issue cmd =
     Returned (Some err) (cmd\<lparr>Config := ConfigValue (current_config cmd)\<rparr>)"
proof -
  let ?cmd3 = "cmd\<lparr>Config := ConfigValue (current_config cmd)\<rparr>"
  have "defaultConfig_user parse (current_config cmd) ?cmd3 = Returned (Some err) ?cmd3"
    using assms(3,4,5) by (intro defaultConfig_user_err [where host = v0 and rest = rest]) simp_all
  then show ?thesis
    unfolding defaultConfig_hosts [where parse = parse and issue = issue, OF assms(1-3)]
    by simp
qed

lemma defaultConfig_hosts_set:
  assumes "\<not> args_have_configFlag (Args cmd)" "slot_ok cmd" "VHosts (current_config cmd) = v0 # rest"
    "user cmd \<noteq> JID_zero"
  shows "defaultConfig parse issue cmd =
     Returned None (cmd\<lparr>Args := Args cmd @ [configFlag, filepath_Join (cfgDir cmd) cfgFileName],
       Config := ConfigValue (current_config cmd),
       cfgF := cfgF cmd @ [(cfgFileName, ExecuteCfgTmpl (current_config cmd))]\<rparr>)"
  unfolding defaultConfig_hosts [where parse = parse and issue = issue, OF assms(1-3)]
  using assms(4)
  by (simp add: defaultConfig_user_set ConfigFile_eq)

lemma render_files_append:
  "cfgDir cmd' = cfgDir cmd \<Longrightarrow> cfgF cmd' = cfgF cmd @ fs \<Longrightarrow>
   render_files cfgTmpl cmd' = render_files cfgTmpl cmd @
     map (\<lambda>(name, f). (filepath_Join (cfgDir cmd) name, write_file cfgTmpl cmd f)) fs"
proof -
  assume d: "cfgDir cmd' = cfgDir cmd" and f: "cfgF cmd' = cfgF cmd @ fs"
  have "write_file cfgTmpl cmd' w = write_file cfgTmpl cmd w" for w
    using d by (cases w) (simp_all add: ConfigDir_def)
  with d f show ?thesis by (simp add: render_files_def)
qed

lemma apply_VHost_or_Modules:
  assumes "slot_ok cmd" and "is_VHost_or_Modules c"
  shows "apply_call parse issue c cmd = Returned None
     (cmd\<lparr>Config := ConfigValue ((current_config cmd)
        \<lparr>VHosts := VHosts (current_config cmd) @ vhost_args [c],
         Modules := Modules (current_config cmd) @ module_args [c]\<rparr>)\<rparr>)"
  using assms by (cases c) (simp_all add: VHost_ok Modules_opt_ok)

lemma vhost_args_Cons: "vhost_args (c # cs) = vhost_args [c] @ vhost_args cs"
  by (cases c) simp_all

lemma module_args_Cons: "module_args (c # cs) = module_args [c] @ module_args cs"
  by (cases c) simp_all

lemma grows_flag: "grows cmd cmd' \<Longrightarrow> args_have_configFlag (Args cmd) \<Longrightarrow> args_have_configFlag (Args cmd')"
  by (auto simp: grows_def args_have_configFlag_iff dest: set_mono_prefix)

lemma grows_cfgF: "grows cmd cmd' \<Longrightarrow> x \<in> set (cfgF cmd) \<Longrightarrow> x \<in> set (cfgF cmd')"
  by (auto simp: grows_def dest: set_mono_prefix)

lemma grows_cfgDir: "grows cmd cmd' \<Longrightarrow> cfgDir cmd' = cfgDir cmd"
  by (simp add: grows_def)

lemma current_config_upd [simp]:
  "current_config (cmd\<lparr>Args := a\<rparr>) = current_config cmd"
  "current_config (cmd\<lparr>cfgF := f\<rparr>) = current_config cmd"
  "current_config (cmd\<lparr>deferF := d\<rparr>) = current_config cmd"
  "current_config (cmd\<lparr>user := u\<rparr>) = current_config cmd"
  "current_config (cmd\<lparr>pass := p\<rparr>) = current_config cmd"
  "current_config (cmd\<lparr>certs := c\<rparr>) = current_config cmd"
  by (simp_all add: current_config_def)

lemma slot_ok_upd [simp]:
  "slot_ok (cmd\<lparr>Args := a\<rparr>) = slot_ok cmd"
  "slot_ok (cmd\<lparr>cfgF := f\<rparr>) = slot_ok cmd"
  "slot_ok (cmd\<lparr>deferF := d\<rparr>) = slot_ok cmd"
  "slot_ok (cmd\<lparr>user := u\<rparr>) = slot_ok cmd"
  "slot_ok (cmd\<lparr>pass := p\<rparr>) = slot_ok cmd"
  "slot_ok (cmd\<lparr>certs := c\<rparr>) = slot_ok cmd"
  by (simp_all add: slot_ok_def)

lemma ListenC2S_ok:
  "slot_ok cmd \<Longrightarrow> Close l = None \<Longrightarrow> ListenC2S (Inr l) cmd =
     Returned None (cmd\<lparr>Config := ConfigValue ((current_config cmd)\<lparr>C2SPort := Port l\<rparr>)\<rparr>)"
  by (simp add: ListenC2S_def getConfig_ok)

lemma ListenS2S_ok:
  "slot_ok cmd \<Longrightarrow> Close l = None \<Longrightarrow> ListenS2S (Inr l) cmd =
     Returned None (cmd\<lparr>Config := ConfigValue ((current_config cmd)\<lparr>S2SPort := Port l\<rparr>)\<rparr>)"
  by (simp add: ListenS2S_def getConfig_ok)

lemma defaultConfig_cases [case_names flag bad_slot cert_fails empty_ok empty_err empty_set
    hosts_ok hosts_err hosts_set]:
  assumes "\<lbrakk>args_have_configFlag (Args cmd); defaultConfig parse issue cmd = Returned None cmd\<rbrakk> \<Longrightarrow> P"
    and "\<lbrakk>\<not> args_have_configFlag (Args cmd); \<not> slot_ok cmd;
          defaultConfig parse issue cmd = Panicked TypeAssertionPanic\<rbrakk> \<Longrightarrow> P"
    and "\<And>err. \<lbrakk>\<not> args_have_configFlag (Args cmd); slot_ok cmd; VHosts (current_config cmd) = [];
          issue vhost = Some err;
          defaultConfig parse issue cmd =
            Returned (Some err) (cmd\<lparr>Config := ConfigValue (current_config cmd)\<rparr>)\<rbrakk> \<Longrightarrow> P"
    and "\<And>j. \<lbrakk>\<not> args_have_configFlag (Args cmd); slot_ok cmd; VHosts (current_config cmd) = [];
          issue vhost = None; user cmd = JID_zero; parse (''me@'' @ vhost) = Inr j;
          defaultConfig parse issue cmd =
            Returned None (cmd\<lparr>Args := Args cmd @ [configFlag, filepath_Join (cfgDir cmd) cfgFileName],
              Config := ConfigValue ((current_config cmd)\<lparr>VHosts := [vhost]\<rparr>),
              cfgF := cfgF cmd @ [(cfgFileName, ExecuteCfgTmpl ((current_config cmd)\<lparr>VHosts := [vhost]\<rparr>))],
              deferF := deferF cmd @ [CtlFunc [''register'', Localpart j, Domainpart j, ''password'']],
              user := j, pass := ''password'',
              certs := certs cmd @ [vhost]\<rparr>)\<rbrakk> \<Longrightarrow> P"
    and "\<And>err. \<lbrakk>\<not> args_have_configFlag (Args cmd); slot_ok cmd; VHosts (current_config cmd) = [];
          issue vhost = None; user cmd = JID_zero; parse (''me@'' @ vhost) = Inl err;
          defaultConfig parse issue cmd =
            Returned (Some err) (cmd\<lparr>Config := ConfigValue ((current_config cmd)\<lparr>VHosts := [vhost]\<rparr>),
              certs := certs cmd @ [vhost]\<rparr>)\<rbrakk> \<Longrightarrow> P"
    and "\<lbrakk>\<not> args_have_configFlag (Args cmd); slot_ok cmd; VHosts (current_config cmd) = [];
          issue vhost = None; user cmd \<noteq> JID_zero;
          defaultConfig parse issue cmd =
            Returned None (cmd\<lparr>Args := Args cmd @ [configFlag, filepath_Join (cfgDir cmd) cfgFileName],
              Config := ConfigValue ((current_config cmd)\<lparr>VHosts := [vhost]\<rparr>),
              cfgF := cfgF cmd @ [(cfgFileName, ExecuteCfgTmpl ((current_config cmd)\<lparr>VHosts := [vhost]\<rparr>))],
              certs := certs cmd @ [vhost]\<rparr>)\<rbrakk> \<Longrightarrow> P"
    and "\<And>host rest j. \<lbrakk>\<not> args_have_configFlag (Args cmd); slot_ok cmd;
          VHosts (current_config cmd) = host # rest; user cmd = JID_zero;
          parse (''me@'' @ host) = Inr j;
          defaultConfig parse issue cmd =
            Returned None (cmd\<lparr>Args := Args cmd @ [configFlag, filepath_Join (cfgDir cmd) cfgFileName],
              Config := ConfigValue (current_config cmd),
              cfgF := cfgF cmd @ [(cfgFileName, ExecuteCfgTmpl (current_config cmd))],
              deferF := deferF cmd @ [CtlFunc [''register'', Localpart j, Domainpart j, ''password'']],
              user := j, pass := ''password''\<rparr>)\<rbrakk> \<Longrightarrow> P"
    and "\<And>host rest err. \<lbrakk>\<not> args_have_configFlag (Args cmd); slot_ok cmd;
          VHosts (current_config cmd) = host # rest; user cmd = JID_zero;
          parse (''me@'' @ host) = Inl err;
          defaultConfig parse issue cmd =
            Returned (Some err) (cmd\<lparr>Config := ConfigValue (current_config cmd)\<rparr>)\<rbrakk> \<Longrightarrow> P"
    and "\<And>host rest. \<lbrakk>\<not> args_have_configFlag (Args cmd); slot_ok cmd;
          VHosts (current_config cmd) = host # rest; user cmd \<noteq> JID_zero;
          defaultConfig parse issue cmd =
            Returned None (cmd\<lparr>Args := Args cmd @ [configFlag, filepath_Join (cfgDir cmd) cfgFileName],
              Config := ConfigValue (current_config cmd),
              cfgF := cfgF cmd @ [(cfgFileName, ExecuteCfgTmpl (current_config cmd))]\<rparr>)\<rbrakk> \<Longrightarrow> P"
  shows P
proof (cases "args_have_configFlag (Args cmd)")
  case True
  then show ?thesis by (rule assms(1)) (simp add: defaultConfig_flag True)
next
  case noflag: False
  show ?thesis
  proof (cases "slot_ok cmd")
    case False
    with noflag show ?thesis by (intro assms(2) defaultConfig_bad_slot)
  next
    case ok: True
    show ?thesis
    proof (cases "VHosts (current_config cmd)")
      case Nil
      show ?thesis
      proof (cases "issue vhost")
        case (Some err)
        show ?thesis
          by (rule assms(3) [OF noflag ok Nil Some])
            (rule defaultConfig_cert_fails [where parse = parse and issue = issue, OF noflag ok Nil Some])
      next
        case None
        show ?thesis
        proof (cases "user cmd = JID_zero")
          case False
          show ?thesis
            by (rule assms(6) [OF noflag ok Nil None False])
              (rule defaultConfig_empty_set [where parse = parse and issue = issue, OF noflag ok Nil None False])
        next
          case True
          show ?thesis
          proof (cases "parse (''me@'' @ vhost)")
            case (Inl err)
            show ?thesis
              by (rule assms(5) [OF noflag ok Nil None True Inl])
                (rule defaultConfig_empty_zero_err [where parse = parse and issue = issue,
                    OF noflag ok Nil None True Inl])
          next
            case (Inr j)
            show ?thesis
              by (rule assms(4) [OF noflag ok Nil None True Inr])
                (rule defaultConfig_empty_zero [where parse = parse and issue = issue,
                    OF noflag ok Nil None True Inr])
          qed
        qed
      qed
    next
      case (Cons host rest)
      show ?thesis
      proof (cases "user cmd = JID_zero")
        case False
        show ?thesis
          by (rule assms(9) [OF noflag ok Cons False])
            (rule defaultConfig_hosts_set [where parse = parse and issue = issue, OF noflag ok Cons False])
      next
        case True
        show ?thesis
        proof (cases "parse (''me@'' @ host)")
          case (Inl err)
          show ?thesis
            by (rule assms(8) [OF noflag ok Cons True Inl])
              (rule defaultConfig_hosts_zero_err [where parse = parse and issue = issue,
                  OF noflag ok Cons True Inl])
        next
          case (Inr j)
          show ?thesis
            by (rule assms(7) [OF noflag ok Cons True Inr])
              (rule defaultConfig_hosts_zero [where parse = parse and issue = issue,
                  OF noflag ok Cons True Inr])
        qed
      qed
    qed
  qed
qed

lemma defaultConfig_frame_all:
  assumes "defaultConfig parse issue cmd = Returned e cmd'"
  shows "C2SPort (current_config cmd') = C2SPort (current_config cmd) \<and>
      S2SPort (current_config cmd') = S2SPort (current_config cmd) \<and>
      Modules (current_config cmd') = Modules (current_config cmd) \<and>
      (VHosts (current_config cmd) \<noteq> [] \<longrightarrow> VHosts (current_config cmd') = VHosts (current_config cmd)) \<and>
      (user cmd \<noteq> JID_zero \<longrightarrow> user cmd' = user cmd \<and> pass cmd' = pass cmd)"
proof (cases rule: defaultConfig_cases [of cmd parse issue])
  case flag
  with assms show ?thesis by simp
next
  case bad_slot
  with assms show ?thesis by simp
next
  case (cert_fails err)
  with assms show ?thesis by auto
next
  case (empty_ok j)
  with assms show ?thesis by auto
next
  case (empty_err err)
  with assms show ?thesis by auto
next
  case empty_set
  with assms show ?thesis by auto
next
  case (hosts_ok host rest j)
  with assms show ?thesis by auto
next
  case (hosts_err host rest err)
  with assms show ?thesis by auto
next
  case (hosts_set host rest)
  with assms show ?thesis by auto
qed

lemma defaultConfig_returns:
  assumes "slot_ok cmd"
  shows "\<exists>e cmd'. defaultConfig parse issue cmd = Returned e cmd' \<and> slot_ok cmd'"
proof (cases rule: defaultConfig_cases [of cmd parse issue])
  case bad_slot
  with assms show ?thesis by simp
qed (use assms in simp_all)

lemma ListenC2S_returns:
  "slot_ok cmd \<Longrightarrow> \<exists>e cmd'. ListenC2S l cmd = Returned e cmd' \<and> slot_ok cmd'"
  by (cases l; cases "Close (projr l)") (simp_all add: ListenC2S_def getConfig_ok)

lemma ListenS2S_returns:
  "slot_ok cmd \<Longrightarrow> \<exists>e cmd'. ListenS2S l cmd = Returned e cmd' \<and> slot_ok cmd'"
  by (cases l; cases "Close (projr l)") (simp_all add: ListenS2S_def getConfig_ok)

lemma CreateUser_returns:
  "slot_ok cmd \<Longrightarrow> \<exists>e cmd'. CreateUser parse addr pw cmd = Returned e cmd' \<and> slot_ok cmd'"
  by (cases "parse addr") (simp_all add: CreateUser_err CreateUser_ok)

lemma TrustAll_ok:
  "slot_ok cmd \<Longrightarrow> TrustAll cmd =
     Returned None (cmd\<lparr>Config := ConfigValue ((current_config cmd)\<lparr>Modules := Modules (current_config cmd) @ [modName]\<rparr>),
       cfgF := cfgF cmd @ [(''mod_'' @ modName @ ''.lua'', WriteString trustall_script)]\<rparr>)"
  by (simp add: TrustAll_def Modules_opt_ok integration_TempFile_def)

text \<open>
  Every option but \<^verbatim>\<open>ConfigFile\<close> returns, keeps the slot a \<^verbatim>\<open>Config\<close> or \<open>nil\<close>, and only
  extends the module list.
\<close>

lemma apply_call_Modules:
  assumes "slot_ok cmd" and "\<not> is_ConfigFile c"
  shows "\<exists>e cmd'. apply_call parse issue c cmd = Returned e cmd' \<and> slot_ok cmd' \<and>
     prefix (Modules (current_config cmd)) (Modules (current_config cmd'))"
proof (cases c)
  case (ConfigFile_call cfg)
  with assms show ?thesis by simp
next
  case (Ctl_call args)
  with assms show ?thesis by (simp add: Ctl_def integration_Defer_def)
next
  case (ListenC2S_call l)
  with assms show ?thesis
    by (cases l; cases "Close (projr l)") (simp_all add: ListenC2S_def getConfig_ok)
next
  case (ListenS2S_call l)
  with assms show ?thesis
    by (cases l; cases "Close (projr l)") (simp_all add: ListenS2S_def getConfig_ok)
next
  case (VHost_call hosts)
  with assms show ?thesis by (simp add: VHost_ok)
next
  case (CreateUser_call addr pw)
  with assms show ?thesis by (cases "parse addr") (simp_all add: CreateUser_err CreateUser_ok)
next
  case (Modules_call mods)
  with assms show ?thesis by (simp add: Modules_opt_ok)
next
  case TrustAll_call
  with assms show ?thesis by (simp add: TrustAll_ok)
next
  case defaultConfig_call
  from defaultConfig_returns [OF assms(1), of parse issue]
  obtain e cmd' where r: "defaultConfig parse issue cmd = Returned e cmd'" and ok: "slot_ok cmd'"
    by blast
  from defaultConfig_frame_all [OF r] have "Modules (current_config cmd') = Modules (current_config cmd)"
    by simp
  with defaultConfig_call r ok show ?thesis by simp
qed

lemma apply_calls_Modules:
  "slot_ok cmd \<Longrightarrow> list_all (\<lambda>c. \<not> is_ConfigFile c) cs \<Longrightarrow>
   \<exists>e cmd'. apply_calls parse issue cs cmd = Returned e cmd' \<and> slot_ok cmd' \<and>
     prefix (Modules (current_config cmd)) (Modules (current_config cmd'))"
proof (induction cs arbitrary: cmd)
  case Nil
  then show ?case by simp
next
  case (Cons c cs)
  from Cons.prems have nc: "\<not> is_ConfigFile c" and ncs: "list_all (\<lambda>c. \<not> is_ConfigFile c) cs"
    by simp_all
  from apply_call_Modules [OF Cons.prems(1) nc, of parse issue]
  obtain e1 cmd1 where step: "apply_call parse issue c cmd = Returned e1 cmd1" and ok: "slot_ok cmd1"
    and p1: "prefix (Modules (current_config cmd)) (Modules (current_config cmd1))"
    by blast
  show ?case
  proof (cases e1)
    case None
    from Cons.IH [OF ok ncs]
    obtain e cmd' where rest: "apply_calls parse issue cs cmd1 = Returned e cmd'" and ok': "slot_ok cmd'"
      and p2: "prefix (Modules (current_config cmd1)) (Modules (current_config cmd'))"
      by blast
    from p1 p2 have "prefix (Modules (current_config cmd)) (Modules (current_config cmd'))"
      by (rule prefix_order.trans)
    with step None rest ok' show ?thesis by simp
  next
    case (Some err)
    with step ok p1 show ?thesis by simp
  qed
qed

lemma apply_call_returns:
  assumes "slot_ok cmd"
  shows "\<exists>e cmd'. apply_call parse issue c cmd = Returned e cmd' \<and> slot_ok cmd'"
proof (cases "is_ConfigFile c")
  case True
  then show ?thesis by (cases c) (simp_all add: ConfigFile_eq)
next
  case False
  from apply_call_Modules [OF assms False, of parse issue] show ?thesis by blast
qed

lemma apply_calls_returns:
  "slot_ok cmd \<Longrightarrow> \<exists>e cmd'. apply_calls parse issue cs cmd = Returned e cmd' \<and> slot_ok cmd'"
proof (induction cs arbitrary: cmd)
  case Nil
  then show ?case by simp
next
  case (Cons c cs)
  from apply_call_returns [OF Cons.prems, of parse issue c]
  obtain e1 cmd1 where step: "apply_call parse issue c cmd = Returned e1 cmd1" and ok: "slot_ok cmd1"
    by blast
  show ?case
  proof (cases e1)
    case None
    with step Cons.IH [OF ok] show ?thesis by simp
  next
    case (Some err)
    with step ok show ?thesis by simp
  qed
qed

lemma render_files_mem:
  "(name, f) \<in> set (cfgF cmd) \<Longrightarrow>
   (filepath_Join (cfgDir cmd) name, write_file cfgTmpl cmd f) \<in> set (render_files cfgTmpl cmd)"
  by (force simp: render_files_def)

lemma run_all_append:
  "run_all run cmd (fs @ gs) =
     (case run_all run cmd fs of Some err \<Rightarrow> Some err | None \<Rightarrow> run_all run cmd gs)"
  by (induction fs) (simp_all split: option.splits)

lemma run_all_cfgDir: "cfgDir a = cfgDir b \<Longrightarrow> run_all run a fs = run_all run b fs"
proof (induction fs)
  case Nil
  show ?case by simp
next
  case (Cons f fs)
  then show ?case
    by (cases f) (auto simp: Ctl_argv_def ConfigDir_def split: option.splits)
qed

section \<open>The claims\<close>



text \<open>
  C2. For every sequence of \<^verbatim>\<open>VHost\<close> and \<^verbatim>\<open>Modules\<close> calls, with any arguments and in any
  interleaving, applied to a builder whose slot holds \<open>nil\<close> or a \<^verbatim>\<open>Config\<close>: the sequence
  succeeds, the final vhost list is the initial one followed by the arguments of all
  \<^verbatim>\<open>VHost\<close> calls concatenated in call order, and the final module list is the initial one
  followed by the arguments of all \<^verbatim>\<open>Modules\<close> calls concatenated in call order. Nothing
  is removed or de-duplicated, and the ports are untouched.
\<close>

theorem VHost_Modules_concat:
  assumes "slot_ok cmd" and "list_all is_VHost_or_Modules cs"
  shows "\<exists>cmd'. apply_calls parse issue cs cmd = Returned None cmd' \<and>
      VHosts (current_config cmd') = VHosts (current_config cmd) @ vhost_args cs \<and>
      Modules (current_config cmd') = Modules (current_config cmd) @ module_args cs \<and>
      C2SPort (current_config cmd') = C2SPort (current_config cmd) \<and>
      S2SPort (current_config cmd') = S2SPort (current_config cmd)"
  using assms
proof (induction cs arbitrary: cmd)
  case Nil
  then show ?case by simp
next
  case (Cons c cs)
  let ?cmd1 = "cmd\<lparr>Config := ConfigValue ((current_config cmd)
        \<lparr>VHosts := VHosts (current_config cmd) @ vhost_args [c],
         Modules := Modules (current_config cmd) @ module_args [c]\<rparr>)\<rparr>"
  from Cons.prems have step: "apply_call parse issue c cmd = Returned None ?cmd1"
    by (simp add: apply_VHost_or_Modules)
  from Cons.prems have "list_all is_VHost_or_Modules cs" by simp
  moreover have "slot_ok ?cmd1" by simp
  ultimately obtain cmd' where rest: "apply_calls parse issue cs ?cmd1 = Returned None cmd'"
    and v: "VHosts (current_config cmd') = VHosts (current_config ?cmd1) @ vhost_args cs"
    and m: "Modules (current_config cmd') = Modules (current_config ?cmd1) @ module_args cs"
    and c: "C2SPort (current_config cmd') = C2SPort (current_config ?cmd1)"
    and s: "S2SPort (current_config cmd') = S2SPort (current_config ?cmd1)"
    using Cons.IH [of ?cmd1] by blast
  have "apply_calls parse issue (c # cs) cmd = Returned None cmd'"
    using step rest by simp
  moreover have "VHosts (current_config cmd') = VHosts (current_config cmd) @ vhost_args (c # cs)"
    using v by (subst vhost_args_Cons) simp
  moreover have "Modules (current_config cmd') = Modules (current_config cmd) @ module_args (c # cs)"
    using m by (subst module_args_Cons) simp
  moreover have "C2SPort (current_config cmd') = C2SPort (current_config cmd)"
    using c by simp
  moreover have "S2SPort (current_config cmd') = S2SPort (current_config cmd)"
    using s by simp
  ultimately show ?case by blast
qed

theorem VHost_Modules_concat_witness:
  "apply_calls jid_Parse issue_ok
     [VHost_call [''a.example'', ''b.example''], Modules_call [''mam'', ''mam''], VHost_call [''a.example'']]
     (new_Cmd ''/tmp/prosody'') =
   Returned None ((new_Cmd ''/tmp/prosody'')\<lparr>Config := ConfigValue
     \<lparr>C2SPort = 0, S2SPort = 0, VHosts = [''a.example'', ''b.example'', ''a.example''],
      Modules = [''mam'', ''mam'']\<rparr>\<rparr>) \<and>
   vhost_args [VHost_call [''a.example'', ''b.example''], Modules_call [''mam'', ''mam''], VHost_call [''a.example'']]
     = [''a.example'', ''b.example'', ''a.example''] \<and>
   module_args [VHost_call [''a.example'', ''b.example''], Modules_call [''mam'', ''mam''], VHost_call [''a.example'']]
     = [''mam'', ''mam'']"
  using VHost_Modules_concat [of "new_Cmd ''/tmp/prosody''"
      "[VHost_call [''a.example'', ''b.example''], Modules_call [''mam'', ''mam''], VHost_call [''a.example'']]"
      jid_Parse issue_ok]
  by (simp add: new_Cmd_def slot_ok_def VHost_def Modules_opt_def getConfig_def Config_zero_def)

text \<open>
  C3. If the argument vector holds \<^verbatim>\<open>--config\<close> when \<^verbatim>\<open>defaultConfig\<close> runs, it returns
  success and leaves the whole builder as it was: no vhost, certificate request, user or
  file is added. \<^verbatim>\<open>ConfigFile cfg\<close> always succeeds, appends that flag, stores \<open>cfg\<close> and
  registers the config file rendered from \<open>cfg\<close> and the config directory; so
  \<^verbatim>\<open>defaultConfig\<close> after it, also with further options of the package in between, changes
  nothing, and the registered file is still the one rendered from the \<open>cfg\<close> handed to
  \<^verbatim>\<open>ConfigFile\<close>.
\<close>

theorem defaultConfig_after_ConfigFile:
  "(''--config'' \<in> set (Args cmd) \<longrightarrow> defaultConfig parse issue cmd = Returned None cmd) \<and>
   (\<exists>cmd1. ConfigFile cfg cmd = Returned None cmd1 \<and>
      ''--config'' \<in> set (Args cmd1) \<and>
      Config cmd1 = ConfigValue cfg \<and>
      render_files cfgTmpl cmd1 = render_files cfgTmpl cmd @
        [(filepath_Join (cfgDir cmd) ''prosody.cfg.lua'',
          cfgTmpl \<lparr>data_Config = cfg, data_ConfigDir = cfgDir cmd\<rparr>)] \<and>
      defaultConfig parse issue cmd1 = Returned None cmd1 \<and>
      (\<forall>cs e cmd2. apply_calls parse issue cs cmd1 = Returned e cmd2 \<longrightarrow>
         defaultConfig parse issue cmd2 = Returned None cmd2 \<and>
         (''prosody.cfg.lua'', ExecuteCfgTmpl cfg) \<in> set (cfgF cmd2) \<and>
         write_file cfgTmpl cmd2 (ExecuteCfgTmpl cfg) =
           cfgTmpl \<lparr>data_Config = cfg, data_ConfigDir = cfgDir cmd\<rparr>))"
proof (intro conjI impI)
  assume "''--config'' \<in> set (Args cmd)"
  then show "defaultConfig parse issue cmd = Returned None cmd"
    by (simp add: defaultConfig_flag args_have_configFlag_iff configFlag_def)
next
  let ?cmd1 = "cmd\<lparr>Args := Args cmd @ [configFlag, filepath_Join (cfgDir cmd) cfgFileName],
      Config := ConfigValue cfg, cfgF := cfgF cmd @ [(cfgFileName, ExecuteCfgTmpl cfg)]\<rparr>"
  have run: "ConfigFile cfg cmd = Returned None ?cmd1"
    by (rule ConfigFile_eq)
  have flag: "args_have_configFlag (Args ?cmd1)"
    by (simp add: args_have_configFlag_iff)
  have files: "render_files cfgTmpl ?cmd1 = render_files cfgTmpl cmd @
        [(filepath_Join (cfgDir cmd) ''prosody.cfg.lua'',
          cfgTmpl \<lparr>data_Config = cfg, data_ConfigDir = cfgDir cmd\<rparr>)]"
    by (subst render_files_append [where cmd = cmd and fs = "[(cfgFileName, ExecuteCfgTmpl cfg)]"])
      (simp_all add: cfgFileName_def ConfigDir_def)
  have later: "defaultConfig parse issue cmd2 = Returned None cmd2 \<and>
         (''prosody.cfg.lua'', ExecuteCfgTmpl cfg) \<in> set (cfgF cmd2) \<and>
         write_file cfgTmpl cmd2 (ExecuteCfgTmpl cfg) =
           cfgTmpl \<lparr>data_Config = cfg, data_ConfigDir = cfgDir cmd\<rparr>"
    if "apply_calls parse issue cs ?cmd1 = Returned e cmd2" for cs e cmd2
  proof -
    from that have g: "grows ?cmd1 cmd2" by (rule apply_calls_grows)
    from g flag have "args_have_configFlag (Args cmd2)" by (rule grows_flag)
    then have "defaultConfig parse issue cmd2 = Returned None cmd2" by (rule defaultConfig_flag)
    moreover have "(cfgFileName, ExecuteCfgTmpl cfg) \<in> set (cfgF cmd2)"
      using g by (rule grows_cfgF) simp
    moreover have "cfgDir cmd2 = cfgDir cmd"
      using grows_cfgDir [OF g] by simp
    ultimately show ?thesis by (simp add: cfgFileName_def ConfigDir_def)
  qed
  show "\<exists>cmd1. ConfigFile cfg cmd = Returned None cmd1 \<and>
      ''--config'' \<in> set (Args cmd1) \<and>
      Config cmd1 = ConfigValue cfg \<and>
      render_files cfgTmpl cmd1 = render_files cfgTmpl cmd @
        [(filepath_Join (cfgDir cmd) ''prosody.cfg.lua'',
          cfgTmpl \<lparr>data_Config = cfg, data_ConfigDir = cfgDir cmd\<rparr>)] \<and>
      defaultConfig parse issue cmd1 = Returned None cmd1 \<and>
      (\<forall>cs e cmd2. apply_calls parse issue cs cmd1 = Returned e cmd2 \<longrightarrow>
         defaultConfig parse issue cmd2 = Returned None cmd2 \<and>
         (''prosody.cfg.lua'', ExecuteCfgTmpl cfg) \<in> set (cfgF cmd2) \<and>
         write_file cfgTmpl cmd2 (ExecuteCfgTmpl cfg) =
           cfgTmpl \<lparr>data_Config = cfg, data_ConfigDir = cfgDir cmd\<rparr>)"
  proof (intro exI [of _ ?cmd1] conjI allI impI)
    show "ConfigFile cfg cmd = Returned None ?cmd1" by (rule run)
    show "''--config'' \<in> set (Args ?cmd1)" by (simp add: configFlag_def)
    show "Config ?cmd1 = ConfigValue cfg" by simp
    show "render_files cfgTmpl ?cmd1 = render_files cfgTmpl cmd @
        [(filepath_Join (cfgDir cmd) ''prosody.cfg.lua'',
          cfgTmpl \<lparr>data_Config = cfg, data_ConfigDir = cfgDir cmd\<rparr>)]" by (rule files)
    show "defaultConfig parse issue ?cmd1 = Returned None ?cmd1"
      using flag by (rule defaultConfig_flag)
  qed (use later in blast)+
qed

theorem defaultConfig_after_ConfigFile_witness:
  "''--config'' \<in> set (Args ((new_Cmd ''/tmp/prosody'')\<lparr>Args := [''prosody'', ''--config'', ''/etc/prosody.cfg.lua'']\<rparr>)) \<and>
   defaultConfig jid_Parse issue_ok ((new_Cmd ''/tmp/prosody'')\<lparr>Args := [''prosody'', ''--config'', ''/etc/prosody.cfg.lua'']\<rparr>) =
     Returned None ((new_Cmd ''/tmp/prosody'')\<lparr>Args := [''prosody'', ''--config'', ''/etc/prosody.cfg.lua'']\<rparr>)"
  using defaultConfig_after_ConfigFile
    [of "(new_Cmd ''/tmp/prosody'')\<lparr>Args := [''prosody'', ''--config'', ''/etc/prosody.cfg.lua'']\<rparr>" jid_Parse issue_ok]
  by simp

text \<open>
  C4, as the claim states it, fails: the identity is not recorded after the admin
  invocation. \<^verbatim>\<open>CreateUser\<close> on \<^verbatim>\<open>me@localhost\<close> returns success with the identity recorded
  and the invocation only registered through \<^verbatim>\<open>Ctl\<close>; when the registered invocation is
  run afterwards, with an admin tool that fails, the run fails, and the identity had
  been recorded all the same.
\<close>

theorem CreateUser_records_before_run:
  "CreateUser jid_Parse ''me@localhost'' ''password'' (new_Cmd ''/tmp/prosody'') =
     Returned None
       \<lparr>Args = [''prosody''], cfgDir = ''/tmp/prosody'', Config = NilValue, cfgF = [],
        deferF = [CtlFunc [''register'', ''me'', ''localhost'', ''password'']],
        user = \<lparr>Localpart = ''me'', Domainpart = ''localhost''\<rparr>,
        pass = ''password'', certs = []\<rparr> \<and>
   run_deferF run_fails
       \<lparr>Args = [''prosody''], cfgDir = ''/tmp/prosody'', Config = NilValue, cfgF = [],
        deferF = [CtlFunc [''register'', ''me'', ''localhost'', ''password'']],
        user = \<lparr>Localpart = ''me'', Domainpart = ''localhost''\<rparr>,
        pass = ''password'', certs = []\<rparr> = Some RunError"
  by (simp add: CreateUser_def jid_Parse_def Ctl_def integration_Defer_def integration_User_def
      new_Cmd_def cmdName_def JID_zero_def run_deferF_def run_fails_def)

text \<open>
  C4, amended. For every address parser: when the parser rejects the address,
  \<^verbatim>\<open>CreateUser\<close> returns the parser's error and leaves the builder as it was, so no
  invocation is registered and no identity recorded. When it parses the address,
  \<^verbatim>\<open>CreateUser\<close> succeeds: it registers through \<^verbatim>\<open>Ctl\<close> the deferred invocation with the
  arguments \<^verbatim>\<open>register\<close>, local part, domain part, password, and records the parsed
  identity and the password at once, without running the invocation. Running the
  deferred functions of the resulting builder runs what was registered before and then
  \<^verbatim>\<open>prosodyctl --config <config directory>/prosody.cfg.lua register <local> <domain> <password>\<close>,
  and returns the first failure.
\<close>

theorem CreateUser_register:
  "(parse addr = Inl err \<longrightarrow> CreateUser parse addr pw cmd = Returned (Some err) cmd) \<and>
   (parse addr = Inr j \<longrightarrow>
      CreateUser parse addr pw cmd =
        Returned None (cmd\<lparr>deferF := deferF cmd @ [CtlFunc [''register'', Localpart j, Domainpart j, pw]],
          user := j, pass := pw\<rparr>) \<and>
      run_deferF run (cmd\<lparr>deferF := deferF cmd @ [CtlFunc [''register'', Localpart j, Domainpart j, pw]],
          user := j, pass := pw\<rparr>) =
        (case run_deferF run cmd of
           Some e \<Rightarrow> Some e
         | None \<Rightarrow> run [''prosodyctl'', ''--config'', filepath_Join (cfgDir cmd) ''prosody.cfg.lua'',
                        ''register'', Localpart j, Domainpart j, pw]))"
proof (intro conjI impI)
  assume "parse addr = Inl err"
  then show "CreateUser parse addr pw cmd = Returned (Some err) cmd"
    by (rule CreateUser_err)
next
  assume "parse addr = Inr j"
  then show "CreateUser parse addr pw cmd =
      Returned None (cmd\<lparr>deferF := deferF cmd @ [CtlFunc [''register'', Localpart j, Domainpart j, pw]],
        user := j, pass := pw\<rparr>)"
    by (rule CreateUser_ok)
next
  let ?cmd1 = "cmd\<lparr>deferF := deferF cmd @ [CtlFunc [''register'', Localpart j, Domainpart j, pw]],
          user := j, pass := pw\<rparr>"
  have "run_deferF run ?cmd1 =
      run_all run ?cmd1 (deferF cmd @ [CtlFunc [''register'', Localpart j, Domainpart j, pw]])"
    by (simp add: run_deferF_def)
  also have "\<dots> = run_all run cmd (deferF cmd @ [CtlFunc [''register'', Localpart j, Domainpart j, pw]])"
    by (rule run_all_cfgDir) simp
  also have "\<dots> = (case run_deferF run cmd of
           Some e \<Rightarrow> Some e
         | None \<Rightarrow> run [''prosodyctl'', ''--config'', filepath_Join (cfgDir cmd) ''prosody.cfg.lua'',
                        ''register'', Localpart j, Domainpart j, pw])"
    by (simp add: run_all_append run_deferF_def Ctl_argv_def ConfigDir_def configFlag_def
        cfgFileName_def split: option.splits)
  finally show "run_deferF run ?cmd1 =
        (case run_deferF run cmd of
           Some e \<Rightarrow> Some e
         | None \<Rightarrow> run [''prosodyctl'', ''--config'', filepath_Join (cfgDir cmd) ''prosody.cfg.lua'',
                        ''register'', Localpart j, Domainpart j, pw])" .
qed

theorem CreateUser_register_witness:
  "CreateUser jid_Parse ''melocalhost'' ''password'' (new_Cmd ''/tmp/prosody'') =
     Returned (Some ParseError) (new_Cmd ''/tmp/prosody'') \<and>
   CreateUser jid_Parse ''me@localhost'' ''password'' (new_Cmd ''/tmp/prosody'') =
     Returned None ((new_Cmd ''/tmp/prosody'')
       \<lparr>deferF := [CtlFunc [''register'', ''me'', ''localhost'', ''password'']],
        user := \<lparr>Localpart = ''me'', Domainpart = ''localhost''\<rparr>, pass := ''password''\<rparr>) \<and>
   run_deferF
     (run_only [''prosodyctl'', ''--config'', ''/tmp/prosody/prosody.cfg.lua'',
                ''register'', ''me'', ''localhost'', ''password''])
     ((new_Cmd ''/tmp/prosody'')
       \<lparr>deferF := [CtlFunc [''register'', ''me'', ''localhost'', ''password'']],
        user := \<lparr>Localpart = ''me'', Domainpart = ''localhost''\<rparr>, pass := ''password''\<rparr>) = None"
proof -
  have bad: "jid_Parse ''melocalhost'' = Inl ParseError"
    by (simp add: jid_Parse_def)
  have empty: "deferF (new_Cmd ''/tmp/prosody'') = []" "cfgDir (new_Cmd ''/tmp/prosody'') = ''/tmp/prosody''"
    by (simp_all add: new_Cmd_def)
  from CreateUser_register [where parse = jid_Parse and addr = "''melocalhost''" and err = ParseError
      and pw = "''password''" and cmd = "new_Cmd ''/tmp/prosody''"] bad
  have 1: "CreateUser jid_Parse ''melocalhost'' ''password'' (new_Cmd ''/tmp/prosody'') =
     Returned (Some ParseError) (new_Cmd ''/tmp/prosody'')"
    by simp
  from CreateUser_register [where parse = jid_Parse and addr = "''me@localhost''"
      and pw = "''password''" and cmd = "new_Cmd ''/tmp/prosody''"
      and j = "\<lparr>Localpart = ''me'', Domainpart = ''localhost''\<rparr>"
      and run = "run_only [''prosodyctl'', ''--config'', ''/tmp/prosody/prosody.cfg.lua'',
                ''register'', ''me'', ''localhost'', ''password'']"]
    jid_Parse_me_localhost
  show ?thesis
    using 1 by (simp add: empty run_deferF_def run_only_def filepath_Join_tmp)
qed

text \<open>
  C5. Whenever \<^verbatim>\<open>defaultConfig\<close> returns, with or without an error, from any builder state:
  \<^verbatim>\<open>C2SPort\<close>, \<^verbatim>\<open>S2SPort\<close> and \<^verbatim>\<open>Modules\<close> of the Configuration Value are what they were;
  a vhost list that was not empty is what it was; and an identity that was recorded is
  what it was, with its password.
\<close>

theorem defaultConfig_frame:
  assumes "defaultConfig parse issue cmd = Returned e cmd'"
  shows "C2SPort (current_config cmd') = C2SPort (current_config cmd) \<and>
      S2SPort (current_config cmd') = S2SPort (current_config cmd) \<and>
      Modules (current_config cmd') = Modules (current_config cmd) \<and>
      (VHosts (current_config cmd) \<noteq> [] \<longrightarrow> VHosts (current_config cmd') = VHosts (current_config cmd)) \<and>
      (user cmd \<noteq> JID_zero \<longrightarrow> user cmd' = user cmd \<and> pass cmd' = pass cmd)"
  using assms by (rule defaultConfig_frame_all)

theorem defaultConfig_frame_witness:
  "defaultConfig jid_Parse issue_ok
     \<lparr>Args = [''prosody''], cfgDir = ''/tmp/prosody'',
      Config = ConfigValue \<lparr>C2SPort = 5222, S2SPort = 5269, VHosts = [''example.net''], Modules = [''mam'']\<rparr>,
      cfgF = [], deferF = [], user = \<lparr>Localpart = ''alice'', Domainpart = ''example.net''\<rparr>,
      pass = ''secret'', certs = []\<rparr> =
   Returned None
     \<lparr>Args = [''prosody'', ''--config'', ''/tmp/prosody/prosody.cfg.lua''], cfgDir = ''/tmp/prosody'',
      Config = ConfigValue \<lparr>C2SPort = 5222, S2SPort = 5269, VHosts = [''example.net''], Modules = [''mam'']\<rparr>,
      cfgF = [(''prosody.cfg.lua'',
        ExecuteCfgTmpl \<lparr>C2SPort = 5222, S2SPort = 5269, VHosts = [''example.net''], Modules = [''mam'']\<rparr>)],
      deferF = [], user = \<lparr>Localpart = ''alice'', Domainpart = ''example.net''\<rparr>,
      pass = ''secret'', certs = []\<rparr> \<and>
   VHosts (current_config
     \<lparr>Args = [''prosody'', ''--config'', ''/tmp/prosody/prosody.cfg.lua''], cfgDir = ''/tmp/prosody'',
      Config = ConfigValue \<lparr>C2SPort = 5222, S2SPort = 5269, VHosts = [''example.net''], Modules = [''mam'']\<rparr>,
      cfgF = [(''prosody.cfg.lua'',
        ExecuteCfgTmpl \<lparr>C2SPort = 5222, S2SPort = 5269, VHosts = [''example.net''], Modules = [''mam'']\<rparr>)],
      deferF = [], user = \<lparr>Localpart = ''alice'', Domainpart = ''example.net''\<rparr>,
      pass = ''secret'', certs = []\<rparr>) = [''example.net'']"
proof -
  let ?cmd = "\<lparr>Args = [''prosody''], cfgDir = ''/tmp/prosody'',
      Config = ConfigValue \<lparr>C2SPort = 5222, S2SPort = 5269, VHosts = [''example.net''], Modules = [''mam'']\<rparr>,
      cfgF = [], deferF = [], user = \<lparr>Localpart = ''alice'', Domainpart = ''example.net''\<rparr>,
      pass = ''secret'', certs = []\<rparr>"
  let ?cmd' = "\<lparr>Args = [''prosody'', ''--config'', ''/tmp/prosody/prosody.cfg.lua''], cfgDir = ''/tmp/prosody'',
      Config = ConfigValue \<lparr>C2SPort = 5222, S2SPort = 5269, VHosts = [''example.net''], Modules = [''mam'']\<rparr>,
      cfgF = [(''prosody.cfg.lua'',
        ExecuteCfgTmpl \<lparr>C2SPort = 5222, S2SPort = 5269, VHosts = [''example.net''], Modules = [''mam'']\<rparr>)],
      deferF = [], user = \<lparr>Localpart = ''alice'', Domainpart = ''example.net''\<rparr>,
      pass = ''secret'', certs = []\<rparr>"
  have run: "defaultConfig jid_Parse issue_ok ?cmd = Returned None ?cmd'"
    by (simp add: defaultConfig_def getConfig_def configFlag_def defaultConfig_vhosts_def
        defaultConfig_user_def User_def JID_Equal_def JID_zero_def ConfigFile_def
        integration_TempFile_def integration_Args_def ConfigDir_def filepath_Join_tmp cfgFileName_def)
  from defaultConfig_frame [OF run] run show ?thesis
    by (simp add: current_config_def)
qed

text \<open>
  C6, as the claim states it, fails: after \<^verbatim>\<open>VHost("example.net")\<close> on a new builder,
  \<^verbatim>\<open>defaultConfig\<close> (every certificate request granted) records the identity \<open>me\<close> at
  \<open>example.net\<close>, whose domain part is not the default hostname \<open>localhost\<close>.
\<close>

theorem defaultConfig_identity_other_host:
  "apply_calls jid_Parse issue_ok [VHost_call [''example.net''], defaultConfig_call] (new_Cmd ''/tmp/prosody'') =
     Returned None
       \<lparr>Args = [''prosody'', ''--config'', ''/tmp/prosody/prosody.cfg.lua''],
        cfgDir = ''/tmp/prosody'',
        Config = ConfigValue \<lparr>C2SPort = 0, S2SPort = 0, VHosts = [''example.net''], Modules = []\<rparr>,
        cfgF = [(''prosody.cfg.lua'',
           ExecuteCfgTmpl \<lparr>C2SPort = 0, S2SPort = 0, VHosts = [''example.net''], Modules = []\<rparr>)],
        deferF = [CtlFunc [''register'', ''me'', ''example.net'', ''password'']],
        user = \<lparr>Localpart = ''me'', Domainpart = ''example.net''\<rparr>,
        pass = ''password'',
        certs = []\<rparr> \<and>
   ''example.net'' \<noteq> vhost"
  by (simp add: new_Cmd_def cmdName_def VHost_def getConfig_def Config_zero_def
      defaultConfig_def configFlag_def defaultConfig_vhosts_def
      defaultConfig_user_def User_def JID_Equal_def JID_zero_def CreateUser_def jid_Parse_def
      Ctl_def integration_Defer_def integration_User_def ConfigFile_def
      integration_TempFile_def integration_Args_def ConfigDir_def filepath_Join_tmp cfgFileName_def
      vhost_def)

text \<open>
  C6, amended. When \<^verbatim>\<open>defaultConfig\<close> runs without the config flag among the arguments,
  finds no recorded identity, and the certificate request (made only for an empty vhost
  list) is granted, it applies \<^verbatim>\<open>CreateUser\<close> to the address \<open>me@\<close> followed by the first
  vhost of the Configuration Value, with the password \<open>password\<close>; that vhost is
  \<open>localhost\<close> when the caller gave none, and the caller's first vhost otherwise. For
  every address parser: when it parses that address, \<^verbatim>\<open>defaultConfig\<close> succeeds, the
  parsed identity is recorded with the password \<open>password\<close> and its registration is
  registered; when it rejects that address, \<^verbatim>\<open>defaultConfig\<close> returns the parse error,
  no identity is recorded, and no invocation, argument or file is registered.
\<close>

theorem defaultConfig_synthesized_identity:
  assumes "\<not> args_have_configFlag (Args cmd)" and "slot_ok cmd" and "user cmd = JID_zero"
    and "VHosts (current_config cmd) \<noteq> [] \<or> issue ''localhost'' = None"
  shows "\<exists>host rest.
      (if VHosts (current_config cmd) = [] then [''localhost''] else VHosts (current_config cmd))
        = host # rest \<and>
      (\<forall>j. parse (''me@'' @ host) = Inr j \<longrightarrow>
         (\<exists>cmd'. defaultConfig parse issue cmd = Returned None cmd' \<and>
            VHosts (current_config cmd') = host # rest \<and>
            user cmd' = j \<and> pass cmd' = ''password'' \<and>
            deferF cmd' = deferF cmd @
              [CtlFunc [''register'', Localpart j, Domainpart j, ''password'']])) \<and>
      (\<forall>err. parse (''me@'' @ host) = Inl err \<longrightarrow>
         (\<exists>cmd'. defaultConfig parse issue cmd = Returned (Some err) cmd' \<and>
            VHosts (current_config cmd') = host # rest \<and>
            user cmd' = JID_zero \<and> deferF cmd' = deferF cmd \<and>
            Args cmd' = Args cmd \<and> cfgF cmd' = cfgF cmd))"
proof (cases "VHosts (current_config cmd)")
  case Nil
  with assms(4) have cert: "issue vhost = None" by (simp add: vhost_def)
  have ok: "\<exists>cmd'. defaultConfig parse issue cmd = Returned None cmd' \<and>
            VHosts (current_config cmd') = [vhost] \<and>
            user cmd' = j \<and> pass cmd' = ''password'' \<and>
            deferF cmd' = deferF cmd @
              [CtlFunc [''register'', Localpart j, Domainpart j, ''password'']]"
    if "parse (''me@'' @ vhost) = Inr j" for j
    using defaultConfig_empty_zero [where parse = parse and issue = issue,
        OF assms(1,2) Nil cert assms(3) that]
    by simp
  have bad: "\<exists>cmd'. defaultConfig parse issue cmd = Returned (Some err) cmd' \<and>
            VHosts (current_config cmd') = [vhost] \<and>
            user cmd' = JID_zero \<and> deferF cmd' = deferF cmd \<and>
            Args cmd' = Args cmd \<and> cfgF cmd' = cfgF cmd"
    if "parse (''me@'' @ vhost) = Inl err" for err
    using defaultConfig_empty_zero_err [where parse = parse and issue = issue,
        OF assms(1,2) Nil cert assms(3) that] assms(3)
    by simp
  have "(if VHosts (current_config cmd) = [] then [''localhost''] else VHosts (current_config cmd))
        = vhost # []"
    using Nil by (simp add: vhost_def)
  with ok bad show ?thesis by blast
next
  case (Cons host rest)
  have ok: "\<exists>cmd'. defaultConfig parse issue cmd = Returned None cmd' \<and>
            VHosts (current_config cmd') = host # rest \<and>
            user cmd' = j \<and> pass cmd' = ''password'' \<and>
            deferF cmd' = deferF cmd @
              [CtlFunc [''register'', Localpart j, Domainpart j, ''password'']]"
    if "parse (''me@'' @ host) = Inr j" for j
    using defaultConfig_hosts_zero [where parse = parse and issue = issue,
        OF assms(1,2) Cons assms(3) that] Cons
    by simp
  have bad: "\<exists>cmd'. defaultConfig parse issue cmd = Returned (Some err) cmd' \<and>
            VHosts (current_config cmd') = host # rest \<and>
            user cmd' = JID_zero \<and> deferF cmd' = deferF cmd \<and>
            Args cmd' = Args cmd \<and> cfgF cmd' = cfgF cmd"
    if "parse (''me@'' @ host) = Inl err" for err
    using defaultConfig_hosts_zero_err [where parse = parse and issue = issue,
        OF assms(1,2) Cons assms(3) that] Cons assms(3)
    by simp
  have "(if VHosts (current_config cmd) = [] then [''localhost''] else VHosts (current_config cmd))
        = host # rest"
    using Cons by simp
  with ok bad show ?thesis by blast
qed

theorem defaultConfig_synthesized_identity_witness:
  "\<exists>cmd'. defaultConfig jid_Parse issue_ok ((new_Cmd ''/tmp/prosody'')\<lparr>Config := ConfigValue
        \<lparr>C2SPort = 0, S2SPort = 0, VHosts = [''a.example'', ''b.example''], Modules = []\<rparr>\<rparr>) = Returned None cmd' \<and>
      VHosts (current_config cmd') = [''a.example'', ''b.example''] \<and>
      user cmd' = \<lparr>Localpart = ''me'', Domainpart = ''a.example''\<rparr> \<and>
      pass cmd' = ''password'' \<and>
      deferF cmd' = [CtlFunc [''register'', ''me'', ''a.example'', ''password'']]"
proof -
  let ?cmd = "(new_Cmd ''/tmp/prosody'')\<lparr>Config := ConfigValue
        \<lparr>C2SPort = 0, S2SPort = 0, VHosts = [''a.example'', ''b.example''], Modules = []\<rparr>\<rparr>"
  have "\<not> args_have_configFlag (Args ?cmd)"
    by (simp add: new_Cmd_def cmdName_def configFlag_def)
  moreover have "slot_ok ?cmd" by simp
  moreover have "user ?cmd = JID_zero" by (simp add: new_Cmd_def)
  moreover have "VHosts (current_config ?cmd) \<noteq> [] \<or> issue_ok ''localhost'' = None" by simp
  ultimately obtain host rest where
    v: "(if VHosts (current_config ?cmd) = [] then [''localhost''] else VHosts (current_config ?cmd))
        = host # rest"
    and ok: "\<And>j. jid_Parse (''me@'' @ host) = Inr j \<Longrightarrow>
         \<exists>cmd'. defaultConfig jid_Parse issue_ok ?cmd = Returned None cmd' \<and>
            VHosts (current_config cmd') = host # rest \<and>
            user cmd' = j \<and> pass cmd' = ''password'' \<and>
            deferF cmd' = deferF ?cmd @
              [CtlFunc [''register'', Localpart j, Domainpart j, ''password'']]"
    using defaultConfig_synthesized_identity [where cmd = ?cmd and issue = issue_ok and parse = jid_Parse]
    by blast
  from v have host: "host = ''a.example''" and rest: "rest = [''b.example'']" by simp_all
  have "jid_Parse (''me@'' @ host) = Inr \<lparr>Localpart = ''me'', Domainpart = ''a.example''\<rparr>"
    by (simp add: host jid_Parse_def)
  from ok [OF this] show ?thesis
    by (simp add: host rest new_Cmd_def)
qed

text \<open>
  The other branch of C6 at a concrete input: with the empty string as the caller's
  vhost, the parser \<open>jid_Parse\<close> rejects \<open>me@\<close> and \<^verbatim>\<open>defaultConfig\<close> returns the parse error
  with no identity recorded.
\<close>

lemma defaultConfig_empty_host_example:
  "defaultConfig jid_Parse issue_ok ((new_Cmd ''/tmp/prosody'')\<lparr>Config := ConfigValue
        \<lparr>C2SPort = 0, S2SPort = 0, VHosts = [[]], Modules = []\<rparr>\<rparr>) =
     Returned (Some ParseError) ((new_Cmd ''/tmp/prosody'')\<lparr>Config := ConfigValue
        \<lparr>C2SPort = 0, S2SPort = 0, VHosts = [[]], Modules = []\<rparr>\<rparr>)"
  by (simp add: new_Cmd_def cmdName_def getConfig_def defaultConfig_def configFlag_def
      defaultConfig_vhosts_def defaultConfig_user_def User_def JID_Equal_def JID_zero_def
      CreateUser_def jid_Parse_def)

text \<open>
  C7, as the claim states it, fails: two calls of \<^verbatim>\<open>ListenC2S\<close> that both succeed, each on
  a listener to which the system assigned port 5222, store the same port twice; the two
  port numbers are not distinct.
\<close>

theorem ListenC2S_twice_same_port:
  "ListenC2S (Inr \<lparr>Port = 5222, Close = None\<rparr>) (new_Cmd ''/tmp/prosody'') =
     Returned None ((new_Cmd ''/tmp/prosody'')\<lparr>Config := ConfigValue
        \<lparr>C2SPort = 5222, S2SPort = 0, VHosts = [], Modules = []\<rparr>\<rparr>) \<and>
   ListenC2S (Inr \<lparr>Port = 5222, Close = None\<rparr>) ((new_Cmd ''/tmp/prosody'')\<lparr>Config := ConfigValue
        \<lparr>C2SPort = 5222, S2SPort = 0, VHosts = [], Modules = []\<rparr>\<rparr>) =
     Returned None ((new_Cmd ''/tmp/prosody'')\<lparr>Config := ConfigValue
        \<lparr>C2SPort = 5222, S2SPort = 0, VHosts = [], Modules = []\<rparr>\<rparr>)"
  by (simp add: ListenC2S_def getConfig_def new_Cmd_def Config_zero_def)

text \<open>
  C7, amended. Two calls of \<^verbatim>\<open>ListenC2S\<close> (of \<^verbatim>\<open>ListenS2S\<close>) that both succeed store, each,
  the port of the listener that call opened and closed in \<^verbatim>\<open>C2SPort\<close> (in \<^verbatim>\<open>S2SPort\<close>): after
  the second call the field holds the second port only, and the other fields are what
  they were. A listener that fails to open or to close stores nothing and its error is
  returned. The two ports are whatever the system assigned; nothing makes them differ.
\<close>

theorem Listen_twice_last_port:
  assumes "slot_ok cmd" and "Close l1 = None" and "Close l2 = None"
  shows "(\<exists>cmd1 cmd2.
        ListenC2S (Inr l1) cmd = Returned None cmd1 \<and> C2SPort (current_config cmd1) = Port l1 \<and>
        ListenC2S (Inr l2) cmd1 = Returned None cmd2 \<and> C2SPort (current_config cmd2) = Port l2 \<and>
        S2SPort (current_config cmd2) = S2SPort (current_config cmd) \<and>
        VHosts (current_config cmd2) = VHosts (current_config cmd) \<and>
        Modules (current_config cmd2) = Modules (current_config cmd)) \<and>
     (\<exists>cmd1 cmd2.
        ListenS2S (Inr l1) cmd = Returned None cmd1 \<and> S2SPort (current_config cmd1) = Port l1 \<and>
        ListenS2S (Inr l2) cmd1 = Returned None cmd2 \<and> S2SPort (current_config cmd2) = Port l2 \<and>
        C2SPort (current_config cmd2) = C2SPort (current_config cmd) \<and>
        VHosts (current_config cmd2) = VHosts (current_config cmd) \<and>
        Modules (current_config cmd2) = Modules (current_config cmd)) \<and>
     ListenC2S (Inr (l1\<lparr>Close := Some err\<rparr>)) cmd = Returned (Some err) cmd \<and>
     ListenS2S (Inr (l1\<lparr>Close := Some err\<rparr>)) cmd = Returned (Some err) cmd \<and>
     ListenC2S (Inl err) cmd = Returned (Some err) cmd \<and>
     ListenS2S (Inl err) cmd = Returned (Some err) cmd"
proof (intro conjI)
  let ?c1 = "cmd\<lparr>Config := ConfigValue ((current_config cmd)\<lparr>C2SPort := Port l1\<rparr>)\<rparr>"
  let ?c2 = "?c1\<lparr>Config := ConfigValue ((current_config ?c1)\<lparr>C2SPort := Port l2\<rparr>)\<rparr>"
  have "ListenC2S (Inr l1) cmd = Returned None ?c1"
    using assms by (simp add: ListenC2S_ok)
  moreover have "ListenC2S (Inr l2) ?c1 = Returned None ?c2"
    using assms by (simp add: ListenC2S_ok)
  ultimately show "\<exists>cmd1 cmd2.
        ListenC2S (Inr l1) cmd = Returned None cmd1 \<and> C2SPort (current_config cmd1) = Port l1 \<and>
        ListenC2S (Inr l2) cmd1 = Returned None cmd2 \<and> C2SPort (current_config cmd2) = Port l2 \<and>
        S2SPort (current_config cmd2) = S2SPort (current_config cmd) \<and>
        VHosts (current_config cmd2) = VHosts (current_config cmd) \<and>
        Modules (current_config cmd2) = Modules (current_config cmd)"
    by (intro exI [of _ ?c1] exI [of _ ?c2]) simp
next
  let ?c1 = "cmd\<lparr>Config := ConfigValue ((current_config cmd)\<lparr>S2SPort := Port l1\<rparr>)\<rparr>"
  let ?c2 = "?c1\<lparr>Config := ConfigValue ((current_config ?c1)\<lparr>S2SPort := Port l2\<rparr>)\<rparr>"
  have "ListenS2S (Inr l1) cmd = Returned None ?c1"
    using assms by (simp add: ListenS2S_ok)
  moreover have "ListenS2S (Inr l2) ?c1 = Returned None ?c2"
    using assms by (simp add: ListenS2S_ok)
  ultimately show "\<exists>cmd1 cmd2.
        ListenS2S (Inr l1) cmd = Returned None cmd1 \<and> S2SPort (current_config cmd1) = Port l1 \<and>
        ListenS2S (Inr l2) cmd1 = Returned None cmd2 \<and> S2SPort (current_config cmd2) = Port l2 \<and>
        C2SPort (current_config cmd2) = C2SPort (current_config cmd) \<and>
        VHosts (current_config cmd2) = VHosts (current_config cmd) \<and>
        Modules (current_config cmd2) = Modules (current_config cmd)"
    by (intro exI [of _ ?c1] exI [of _ ?c2]) simp
qed (simp_all add: ListenC2S_def ListenS2S_def)

theorem Listen_twice_last_port_witness:
  "ListenC2S (Inr \<lparr>Port = 40001, Close = None\<rparr>) (new_Cmd ''/tmp/prosody'') =
     Returned None ((new_Cmd ''/tmp/prosody'')\<lparr>Config := ConfigValue
        \<lparr>C2SPort = 40001, S2SPort = 0, VHosts = [], Modules = []\<rparr>\<rparr>) \<and>
   ListenC2S (Inr \<lparr>Port = 40002, Close = None\<rparr>) ((new_Cmd ''/tmp/prosody'')\<lparr>Config := ConfigValue
        \<lparr>C2SPort = 40001, S2SPort = 0, VHosts = [], Modules = []\<rparr>\<rparr>) =
     Returned None ((new_Cmd ''/tmp/prosody'')\<lparr>Config := ConfigValue
        \<lparr>C2SPort = 40002, S2SPort = 0, VHosts = [], Modules = []\<rparr>\<rparr>)"
  using Listen_twice_last_port [of "new_Cmd ''/tmp/prosody''" "\<lparr>Port = 40001, Close = None\<rparr>"
      "\<lparr>Port = 40002, Close = None\<rparr>"]
  by (simp add: ListenC2S_def getConfig_def new_Cmd_def Config_zero_def slot_ok_def)

text \<open>
  C8, as the claim states it, fails: the effect of \<^verbatim>\<open>TrustAll\<close> is not the same whatever
  is applied after it. After \<^verbatim>\<open>TrustAll\<close> and then \<^verbatim>\<open>ConfigFile\<close> on a new builder, the
  module list of the Configuration Value is empty: \<^verbatim>\<open>ConfigFile\<close> has replaced the value by
  its argument, and the entry \<open>trustall\<close> is gone (the side file is still registered).
\<close>

theorem TrustAll_then_ConfigFile:
  "apply_calls jid_Parse issue_ok
     [TrustAll_call,
      ConfigFile_call \<lparr>C2SPort = 0, S2SPort = 0, VHosts = [''example.net''], Modules = []\<rparr>]
     (new_Cmd ''/tmp/prosody'') =
   Returned None
     \<lparr>Args = [''prosody'', ''--config'', ''/tmp/prosody/prosody.cfg.lua''],
      cfgDir = ''/tmp/prosody'',
      Config = ConfigValue \<lparr>C2SPort = 0, S2SPort = 0, VHosts = [''example.net''], Modules = []\<rparr>,
      cfgF = [(''mod_trustall.lua'', WriteString trustall_script),
              (''prosody.cfg.lua'',
               ExecuteCfgTmpl \<lparr>C2SPort = 0, S2SPort = 0, VHosts = [''example.net''], Modules = []\<rparr>)],
      deferF = [], user = \<lparr>Localpart = [], Domainpart = []\<rparr>, pass = [], certs = []\<rparr>"
  by (simp add: new_Cmd_def cmdName_def TrustAll_def Modules_opt_def getConfig_def Config_zero_def
      modName_def integration_TempFile_def ConfigFile_def integration_Args_def ConfigDir_def
      configFlag_def cfgFileName_def filepath_Join_tmp JID_zero_def)

text \<open>
  C8, amended. Whatever options of the package were applied before, from a builder whose
  slot holds \<open>nil\<close> or a \<^verbatim>\<open>Config\<close>, \<^verbatim>\<open>TrustAll\<close> succeeds and does exactly this: it appends
  the one module entry \<open>trustall\<close> to the module list of the builder's Configuration
  Value and registers the deferred write of \<open>mod_trustall.lua\<close> with the fixed script,
  which is the string literal of the source. Whatever options are applied afterwards,
  that write stays registered and rendering writes that script to \<open>mod_trustall.lua\<close> in
  the config directory, for every template. The module entry stays in the module list
  through every later option other than \<^verbatim>\<open>ConfigFile\<close>, which replaces the Configuration
  Value by its argument.
\<close>

theorem TrustAll_effect:
  assumes "slot_ok cmd0" and "apply_calls parse issue before cmd0 = Returned None cmd"
  shows "trustall_script =
      [CHR 0x0A] @ ''module:set_global();'' @ [CHR 0x0A, CHR 0x0A] @
      ''module:hook(\"s2s-check-certificate\", function(event)'' @ [CHR 0x0A, CHR 0x09] @
      ''local session = event.session;'' @ [CHR 0x0A, CHR 0x09] @
      ''module:log(\"info\", \"implicitly trusting presented certificate\");'' @ [CHR 0x0A, CHR 0x09] @
      ''session.cert_chain_status = \"valid\";'' @ [CHR 0x0A, CHR 0x09] @
      ''session.cert_identity_status = \"valid\";'' @ [CHR 0x0A, CHR 0x09] @
      ''return true;'' @ [CHR 0x0A] @
      ''end);'' \<and>
    (\<exists>cmd1. TrustAll cmd = Returned None cmd1 \<and>
      cmd1 = cmd\<lparr>Config := ConfigValue
                 ((current_config cmd)\<lparr>Modules := Modules (current_config cmd) @ [''trustall'']\<rparr>),
               cfgF := cfgF cmd @ [(''mod_trustall.lua'', WriteString trustall_script)]\<rparr> \<and>
      (\<forall>after e cmd2. apply_calls parse issue after cmd1 = Returned e cmd2 \<longrightarrow>
         (''mod_trustall.lua'', WriteString trustall_script) \<in> set (cfgF cmd2) \<and>
         (filepath_Join (cfgDir cmd0) ''mod_trustall.lua'', Inr trustall_script)
            \<in> set (render_files cfgTmpl cmd2) \<and>
         (list_all (\<lambda>c. \<not> is_ConfigFile c) after \<longrightarrow>
            prefix (Modules (current_config cmd) @ [''trustall''])
                   (Modules (current_config cmd2)))))"
proof
  show "trustall_script =
      [CHR 0x0A] @ ''module:set_global();'' @ [CHR 0x0A, CHR 0x0A] @
      ''module:hook(\"s2s-check-certificate\", function(event)'' @ [CHR 0x0A, CHR 0x09] @
      ''local session = event.session;'' @ [CHR 0x0A, CHR 0x09] @
      ''module:log(\"info\", \"implicitly trusting presented certificate\");'' @ [CHR 0x0A, CHR 0x09] @
      ''session.cert_chain_status = \"valid\";'' @ [CHR 0x0A, CHR 0x09] @
      ''session.cert_identity_status = \"valid\";'' @ [CHR 0x0A, CHR 0x09] @
      ''return true;'' @ [CHR 0x0A] @
      ''end);''"
    by (simp add: trustall_script_def)
next
  let ?cmd1 = "cmd\<lparr>Config := ConfigValue
                 ((current_config cmd)\<lparr>Modules := Modules (current_config cmd) @ [''trustall'']\<rparr>),
               cfgF := cfgF cmd @ [(''mod_trustall.lua'', WriteString trustall_script)]\<rparr>"
  from apply_calls_returns [OF assms(1), of parse issue before] assms(2)
  have ok: "slot_ok cmd" by simp
  have dir: "cfgDir cmd = cfgDir cmd0"
    using apply_calls_grows [OF assms(2)] by (rule grows_cfgDir)
  have run: "TrustAll cmd = Returned None ?cmd1"
    using ok by (simp add: TrustAll_ok modName_def)
  have ok1: "slot_ok ?cmd1" by simp
  have later: "(''mod_trustall.lua'', WriteString trustall_script) \<in> set (cfgF cmd2) \<and>
         (filepath_Join (cfgDir cmd0) ''mod_trustall.lua'', Inr trustall_script)
            \<in> set (render_files cfgTmpl cmd2) \<and>
         (list_all (\<lambda>c. \<not> is_ConfigFile c) after \<longrightarrow>
            prefix (Modules (current_config cmd) @ [''trustall''])
                   (Modules (current_config cmd2)))"
    if a: "apply_calls parse issue after ?cmd1 = Returned e cmd2" for after e cmd2
  proof -
    from a have g: "grows ?cmd1 cmd2" by (rule apply_calls_grows)
    have m: "(''mod_trustall.lua'', WriteString trustall_script) \<in> set (cfgF cmd2)"
      using g by (rule grows_cfgF) simp
    have d: "cfgDir cmd2 = cfgDir cmd0"
      using grows_cfgDir [OF g] dir by simp
    have f: "(filepath_Join (cfgDir cmd0) ''mod_trustall.lua'', Inr trustall_script)
            \<in> set (render_files cfgTmpl cmd2)"
      using render_files_mem [OF m, of cfgTmpl] d by simp
    have p: "prefix (Modules (current_config cmd) @ [''trustall'']) (Modules (current_config cmd2))"
      if "list_all (\<lambda>c. \<not> is_ConfigFile c) after"
      using apply_calls_Modules [OF ok1 that, of parse issue] a by auto
    from m f p show ?thesis by blast
  qed
  from run later show "\<exists>cmd1. TrustAll cmd = Returned None cmd1 \<and>
      cmd1 = ?cmd1 \<and>
      (\<forall>after e cmd2. apply_calls parse issue after cmd1 = Returned e cmd2 \<longrightarrow>
         (''mod_trustall.lua'', WriteString trustall_script) \<in> set (cfgF cmd2) \<and>
         (filepath_Join (cfgDir cmd0) ''mod_trustall.lua'', Inr trustall_script)
            \<in> set (render_files cfgTmpl cmd2) \<and>
         (list_all (\<lambda>c. \<not> is_ConfigFile c) after \<longrightarrow>
            prefix (Modules (current_config cmd) @ [''trustall''])
                   (Modules (current_config cmd2))))"
    by blast
qed

theorem TrustAll_effect_witness:
  "apply_calls jid_Parse issue_ok [VHost_call [''example.net''], TrustAll_call, Modules_call [''mam'']]
     (new_Cmd ''/tmp/prosody'') =
   Returned None ((new_Cmd ''/tmp/prosody'')\<lparr>Config := ConfigValue
       \<lparr>C2SPort = 0, S2SPort = 0, VHosts = [''example.net''], Modules = [''trustall'', ''mam'']\<rparr>,
     cfgF := [(''mod_trustall.lua'', WriteString trustall_script)]\<rparr>) \<and>
   (''/tmp/prosody/mod_trustall.lua'', Inr trustall_script) \<in> set (render_files (\<lambda>d. Inl RunError)
     ((new_Cmd ''/tmp/prosody'')\<lparr>Config := ConfigValue
       \<lparr>C2SPort = 0, S2SPort = 0, VHosts = [''example.net''], Modules = [''trustall'', ''mam'']\<rparr>,
     cfgF := [(''mod_trustall.lua'', WriteString trustall_script)]\<rparr>)) \<and>
   length trustall_script = 272"
proof -
  let ?cmd = "(new_Cmd ''/tmp/prosody'')\<lparr>Config := ConfigValue
       \<lparr>C2SPort = 0, S2SPort = 0, VHosts = [''example.net''], Modules = []\<rparr>\<rparr>"
  let ?cmd2 = "(new_Cmd ''/tmp/prosody'')\<lparr>Config := ConfigValue
       \<lparr>C2SPort = 0, S2SPort = 0, VHosts = [''example.net''], Modules = [''trustall'', ''mam'']\<rparr>,
     cfgF := [(''mod_trustall.lua'', WriteString trustall_script)]\<rparr>"
  have ok: "slot_ok (new_Cmd ''/tmp/prosody'')"
    by (simp add: slot_ok_def new_Cmd_def)
  have v: "VHost [''example.net''] (new_Cmd ''/tmp/prosody'') = Returned None ?cmd"
    by (simp add: VHost_def getConfig_def new_Cmd_def Config_zero_def)
  then have before: "apply_calls jid_Parse issue_ok [VHost_call [''example.net'']] (new_Cmd ''/tmp/prosody'') =
      Returned None ?cmd"
    by simp
  note T = TrustAll_effect [OF ok before, of "\<lambda>d. Inl RunError"]
  have len: "length trustall_script = 272"
    by (subst T [THEN conjunct1]) simp
  from T [THEN conjunct2]
  obtain cmd1 where t: "TrustAll ?cmd = Returned None cmd1"
    and c: "cmd1 = ?cmd\<lparr>Config := ConfigValue
                 ((current_config ?cmd)\<lparr>Modules := Modules (current_config ?cmd) @ [''trustall'']\<rparr>),
               cfgF := cfgF ?cmd @ [(''mod_trustall.lua'', WriteString trustall_script)]\<rparr>"
    and a: "\<And>after e cmd2. apply_calls jid_Parse issue_ok after cmd1 = Returned e cmd2 \<Longrightarrow>
         (filepath_Join (cfgDir (new_Cmd ''/tmp/prosody'')) ''mod_trustall.lua'', Inr trustall_script)
            \<in> set (render_files (\<lambda>d. Inl RunError) cmd2)"
    by blast
  have after: "apply_calls jid_Parse issue_ok [Modules_call [''mam'']] cmd1 = Returned None ?cmd2"
    unfolding c by (simp add: Modules_opt_def getConfig_def new_Cmd_def current_config_def)
  have all: "apply_calls jid_Parse issue_ok
      [VHost_call [''example.net''], TrustAll_call, Modules_call [''mam'']]
     (new_Cmd ''/tmp/prosody'') = Returned None ?cmd2"
    using v t after by simp
  from a [OF after] all len show ?thesis
    by (simp add: new_Cmd_def filepath_Join_tmp)
qed

text \<open>
  C9. On a builder whose slot holds \<open>nil\<close> or a value of type \<^verbatim>\<open>Config\<close>, the type assertion
  of \<^verbatim>\<open>getConfig\<close> succeeds, a \<open>nil\<close> slot being read as the empty configuration and a
  stored \<^verbatim>\<open>Config\<close> as itself; \<^verbatim>\<open>VHost\<close>, \<^verbatim>\<open>Modules\<close>, \<^verbatim>\<open>ListenC2S\<close>, \<^verbatim>\<open>ListenS2S\<close>,
  \<^verbatim>\<open>TrustAll\<close> and \<^verbatim>\<open>defaultConfig\<close> return instead of panicking; and so does every sequence
  of the package's options, which leaves the slot holding \<open>nil\<close> or a \<^verbatim>\<open>Config\<close>.
\<close>

theorem getConfig_type_assertion_safe:
  assumes "Config cmd = NilValue \<or> (\<exists>c. Config cmd = ConfigValue c)"
  shows "(\<exists>cfg cmd1. getConfig cmd = Inr (cfg, cmd1) \<and> Config cmd1 = ConfigValue cfg \<and>
            (Config cmd = NilValue \<longrightarrow> cfg = Config_zero) \<and>
            (\<forall>c. Config cmd = ConfigValue c \<longrightarrow> cfg = c)) \<and>
         (\<exists>e cmd'. VHost hosts cmd = Returned e cmd') \<and>
         (\<exists>e cmd'. Modules_opt mods cmd = Returned e cmd') \<and>
         (\<exists>e cmd'. ListenC2S l cmd = Returned e cmd') \<and>
         (\<exists>e cmd'. ListenS2S l cmd = Returned e cmd') \<and>
         (\<exists>e cmd'. TrustAll cmd = Returned e cmd') \<and>
         (\<exists>e cmd'. defaultConfig parse issue cmd = Returned e cmd') \<and>
         (\<exists>e cmd'. apply_calls parse issue cs cmd = Returned e cmd' \<and>
            (Config cmd' = NilValue \<or> (\<exists>c. Config cmd' = ConfigValue c)))"
proof -
  have iff: "slot_ok x = (Config x = NilValue \<or> (\<exists>c. Config x = ConfigValue c))" for x
    by (cases "Config x") (simp_all add: slot_ok_def)
  from assms have ok: "slot_ok cmd" by (simp add: iff)
  have "\<exists>cfg cmd1. getConfig cmd = Inr (cfg, cmd1) \<and> Config cmd1 = ConfigValue cfg \<and>
            (Config cmd = NilValue \<longrightarrow> cfg = Config_zero) \<and>
            (\<forall>c. Config cmd = ConfigValue c \<longrightarrow> cfg = c)"
    using ok by (auto simp: getConfig_ok current_config_def)
  moreover have "\<exists>e cmd'. VHost hosts cmd = Returned e cmd'"
    using ok by (simp add: VHost_ok)
  moreover have "\<exists>e cmd'. Modules_opt mods cmd = Returned e cmd'"
    using ok by (simp add: Modules_opt_ok)
  moreover have "\<exists>e cmd'. ListenC2S l cmd = Returned e cmd'"
    using ListenC2S_returns [OF ok] by blast
  moreover have "\<exists>e cmd'. ListenS2S l cmd = Returned e cmd'"
    using ListenS2S_returns [OF ok] by blast
  moreover have "\<exists>e cmd'. TrustAll cmd = Returned e cmd'"
    using ok by (simp add: TrustAll_ok)
  moreover have "\<exists>e cmd'. defaultConfig parse issue cmd = Returned e cmd'"
    using defaultConfig_returns [OF ok] by blast
  moreover have "\<exists>e cmd'. apply_calls parse issue cs cmd = Returned e cmd' \<and>
            (Config cmd' = NilValue \<or> (\<exists>c. Config cmd' = ConfigValue c))"
    using apply_calls_returns [OF ok, of parse issue cs] by (simp add: iff)
  ultimately show ?thesis by blast
qed

theorem getConfig_type_assertion_safe_witness:
  "Config (new_Cmd ''/tmp/prosody'') = NilValue \<and>
   getConfig (new_Cmd ''/tmp/prosody'') =
     Inr (Config_zero, (new_Cmd ''/tmp/prosody'')\<lparr>Config := ConfigValue Config_zero\<rparr>) \<and>
   (\<exists>e cmd'. defaultConfig jid_Parse issue_ok (new_Cmd ''/tmp/prosody'') = Returned e cmd')"
  using getConfig_type_assertion_safe [where cmd = "new_Cmd ''/tmp/prosody''" and parse = jid_Parse
      and issue = issue_ok]
  by (simp add: new_Cmd_def getConfig_def)

text \<open>
  C10. \<^verbatim>\<open>cfg.VHosts[0]\<close> in \<^verbatim>\<open>defaultConfig\<close> is in bounds. The vhost step hands on a
  vhost list that is not empty: \<open>localhost\<close> alone when the list was empty, the list
  itself otherwise. The user step panics on the index exactly when it synthesizes a user
  from an empty vhost list. So \<^verbatim>\<open>defaultConfig\<close>, on any builder, never panics on the index.
\<close>

theorem defaultConfig_index_in_bounds:
  "(\<forall>cfg1 cmd1. defaultConfig_vhosts issue cfg cmd = Inr (cfg1, cmd1) \<longrightarrow>
       VHosts cfg1 \<noteq> [] \<and>
       VHosts cfg1 = (if VHosts cfg = [] then [''localhost''] else VHosts cfg)) \<and>
   (defaultConfig_user parse cfg cmd = Panicked IndexOutOfRangePanic) =
       (VHosts cfg = [] \<and> user cmd = JID_zero) \<and>
   defaultConfig parse issue cmd \<noteq> Panicked IndexOutOfRangePanic"
proof (intro conjI allI impI)
  fix cfg1 cmd1
  assume a: "defaultConfig_vhosts issue cfg cmd = Inr (cfg1, cmd1)"
  then show "VHosts cfg1 = (if VHosts cfg = [] then [''localhost''] else VHosts cfg)"
    by (auto simp: defaultConfig_vhosts_def integration_Cert_def vhost_def split: if_splits option.splits)
  then show "VHosts cfg1 \<noteq> []" by (simp split: if_splits)
next
  show "(defaultConfig_user parse cfg cmd = Panicked IndexOutOfRangePanic) =
       (VHosts cfg = [] \<and> user cmd = JID_zero)"
  proof (cases "user cmd = JID_zero")
    case True
    show ?thesis
    proof (cases "VHosts cfg")
      case Nil
      with True show ?thesis by (simp add: defaultConfig_user_def User_def JID_Equal_iff)
    next
      case (Cons host rest)
      show ?thesis
      proof (cases "parse (''me@'' @ host)")
        case (Inl err)
        from defaultConfig_user_err [where parse = parse, OF True Cons Inl] Cons
        show ?thesis by simp
      next
        case (Inr j)
        from defaultConfig_user_ok [where parse = parse, OF True Cons Inr] Cons
        show ?thesis by simp
      qed
    qed
  next
    case False
    then show ?thesis by (simp add: defaultConfig_user_set)
  qed
next
  show "defaultConfig parse issue cmd \<noteq> Panicked IndexOutOfRangePanic"
  proof (cases "args_have_configFlag (Args cmd)")
    case True
    then show ?thesis by (simp add: defaultConfig_flag)
  next
    case noflag: False
    show ?thesis
    proof (cases "slot_ok cmd")
      case True
      from defaultConfig_returns [OF True, of parse issue] show ?thesis by auto
    next
      case False
      with noflag show ?thesis by (simp add: defaultConfig_bad_slot)
    qed
  qed
qed

theorem defaultConfig_index_in_bounds_witness:
  "defaultConfig_vhosts issue_ok Config_zero (new_Cmd ''/tmp/prosody'') =
     Inr (\<lparr>C2SPort = 0, S2SPort = 0, VHosts = [''localhost''], Modules = []\<rparr>,
          (new_Cmd ''/tmp/prosody'')\<lparr>certs := [''localhost'']\<rparr>) \<and>
   defaultConfig_user jid_Parse Config_zero (new_Cmd ''/tmp/prosody'') = Panicked IndexOutOfRangePanic \<and>
   defaultConfig jid_Parse issue_ok (new_Cmd ''/tmp/prosody'') \<noteq> Panicked IndexOutOfRangePanic"
  using defaultConfig_index_in_bounds [of issue_ok Config_zero "new_Cmd ''/tmp/prosody''" jid_Parse]
  by (simp add: defaultConfig_vhosts_def integration_Cert_def issue_ok_def Config_zero_def vhost_def
      new_Cmd_def)

end
